theory Spec2Isabelle
  imports Complex_Main
begin

section \<open>Python values, exceptions and the numeric idealisation\<close>

text \<open>
  The notebooks are Python scripts over NumPy. Where a property of a computation is
  proved, floating-point numbers are modelled as the reals (\<^typ>\<open>real\<close>): rounding,
  overflow and NaN propagation are outside that model. The flat maps of the kinematic
  car are the exception: their model takes the arithmetic as a parameter. Exceptions
  are values of \<open>exn\<close>; a function that can raise returns \<open>exn + 'a\<close>, with
  \<open>Inl\<close> for the exception.
\<close>

text \<open>A parameter value: a number or a string.\<close>

datatype pyval = Num real | Str string

text \<open>
  \<open>NonFinite\<close> is not a Python exception: it marks a result that holds an IEEE
  \<open>inf\<close> or \<open>nan\<close> (NumPy divides by zero with a warning, not an exception),
  which no real number represents.
\<close>

datatype exn =
    KeyError string
  | IndexError
  | TypeError
  | ZeroDivisionError
  | ValueError string pyval
  | LinAlgError
  | NonFinite

definition and_then :: "exn + 'a \<Rightarrow> ('a \<Rightarrow> exn + 'b) \<Rightarrow> exn + 'b" where
  "and_then r f = (case r of Inl e \<Rightarrow> Inl e | Inr v \<Rightarrow> f v)"

text \<open>\<open>xs[i]\<close> for a constant index \<open>i \<ge> 0\<close>: IndexError out of range.\<close>

definition index :: "'a list \<Rightarrow> nat \<Rightarrow> exn + 'a" where
  "index xs i = (if i < length xs then Inr (xs ! i) else Inl IndexError)"

text \<open>\<open>d[k]\<close>: KeyError when the key is missing.\<close>

definition getitem :: "(string \<rightharpoonup> 'v) \<Rightarrow> string \<Rightarrow> exn + 'v" where
  "getitem d k = (case d k of None \<Rightarrow> Inl (KeyError k) | Some v \<Rightarrow> Inr v)"

text \<open>\<open>d.get(k, default)\<close> never raises.\<close>

definition dict_get :: "(string \<rightharpoonup> 'v) \<Rightarrow> string \<Rightarrow> 'v \<Rightarrow> 'v" where
  "dict_get d k dflt = (case d k of None \<Rightarrow> dflt | Some v \<Rightarrow> v)"

text \<open>\<open>np.clip(a, lo, hi)\<close> is \<open>minimum(maximum(a, lo), hi)\<close>, also when \<open>lo > hi\<close>.\<close>

definition np_clip :: "real \<Rightarrow> real \<Rightarrow> real \<Rightarrow> real" where
  "np_clip a lo hi = min (max a lo) hi"

section \<open>Inverted pendulum (notebook cds110-L2 invpend-dynamics)\<close>

text \<open>
  \<^verbatim>\<open>
  invpend_params = {'m': 1, 'l': 1, 'b': 0.5, 'g': 1}
  def invpend_update(t, x, u, params):
      m, l, b, g = params['m'], params['l'], params['b'], params['g']
      umax = params.get('umax', 1)
      usat = np.clip(u[0], -umax, umax)
      return [x[1], -b/m * x[1] + (g * l / m) * np.sin(x[0] + usat/m)]
  \<close>
  Parameter values are Python numbers, so \<open>-b/m\<close> raises ZeroDivisionError for
  \<open>m = 0\<close>; it is evaluated after the first list element \<open>x[1]\<close>.
\<close>

definition invpend_params :: "string \<rightharpoonup> real" where
  "invpend_params = [''m'' \<mapsto> 1, ''l'' \<mapsto> 1, ''b'' \<mapsto> 1/2, ''g'' \<mapsto> 1]"

definition invpend_update ::
  "real \<Rightarrow> real list \<Rightarrow> real list \<Rightarrow> (string \<rightharpoonup> real) \<Rightarrow> exn + real list" where
  "invpend_update t x u params =
     and_then (getitem params ''m'') (\<lambda>m.
     and_then (getitem params ''l'') (\<lambda>l.
     and_then (getitem params ''b'') (\<lambda>b.
     and_then (getitem params ''g'') (\<lambda>g.
     let umax = dict_get params ''umax'' 1 in
     and_then (index u 0) (\<lambda>u0.
     let usat = np_clip u0 (- umax) umax in
     and_then (index x 1) (\<lambda>x1.
     if m = 0 then Inl ZeroDivisionError else
     and_then (index x 0) (\<lambda>x0.
     Inr [x1, - b / m * x1 + (g * l / m) * sin (x0 + usat / m)])))))))"

text \<open>
  \<^verbatim>\<open>
  def propctrl_output(t, x, u, params):
    kp = params.get('kp', 1)
    return -kp * (u[0] - u[1])
  propctrl = ct.nlsys(None, propctrl_output, name="p_ctrl",
      inputs=['theta', 'r'], outputs='tau')
  \<close>
\<close>

definition propctrl_output ::
  "real \<Rightarrow> real list \<Rightarrow> real list \<Rightarrow> (string \<rightharpoonup> real) \<Rightarrow> exn + real" where
  "propctrl_output t x u params =
     (let kp = dict_get params ''kp'' 1 in
      and_then (index u 0) (\<lambda>u0.
      and_then (index u 1) (\<lambda>u1.
      Inr (- kp * (u0 - u1)))))"

text \<open>
  \<^verbatim>\<open>
  clsys = ct.interconnect(
      [invpend, propctrl], name='invpend w/ proportional feedback',
      inputs=['r'], outputs=['theta', 'tau'], params={'kp': 1})
  \<close>
  The library connects signals of the same name: the output \<open>theta\<close> of
  \<open>invpend\<close> (its first state, as no output function is given) feeds the input
  \<open>theta\<close> of the controller, the input \<open>r\<close> of the closed loop feeds the
  controller's \<open>r\<close>, and the controller's output \<open>tau\<close> is the input of
  \<open>invpend\<close>. Each subsystem is evaluated with its own parameters, overridden by
  those of the interconnection, overridden by those of the call. The state of the closed
  loop is the state of \<open>invpend\<close>, and its right-hand side is:
\<close>

definition clsys_params :: "string \<rightharpoonup> real" where
  "clsys_params = [''kp'' \<mapsto> 1]"

definition clsys_update ::
  "real \<Rightarrow> real list \<Rightarrow> real list \<Rightarrow> (string \<rightharpoonup> real) \<Rightarrow> exn + real list" where
  "clsys_update t x u params =
     (let p_invpend = invpend_params ++ clsys_params ++ params;
          p_ctrl = clsys_params ++ params in
      and_then (index x 0) (\<lambda>theta.
      and_then (index u 0) (\<lambda>r.
      and_then (propctrl_output t [] [theta, r] p_ctrl) (\<lambda>tau.
      invpend_update t x [tau] p_invpend))))"

text \<open>
  \<^verbatim>\<open>clsys.linearize([0, 0], [0], params={'kp': kp}).poles()\<close>
  The state matrix of the linearization is the Jacobian of the right-hand side with
  respect to the state (the library approximates it by finite differences; the model
  takes the exact partial derivatives). \<open>component r i\<close> reads component
  \<open>i\<close> of a returned vector. The poles are the eigenvalues of the state matrix:
  for a two-state system, the complex roots of its characteristic polynomial.
\<close>

definition component :: "exn + real list \<Rightarrow> nat \<Rightarrow> real" where
  "component r i = (case r of Inl e \<Rightarrow> 0 | Inr ys \<Rightarrow> ys ! i)"

definition char_poly2 :: "real list list \<Rightarrow> complex \<Rightarrow> complex" where
  "char_poly2 A z =
     (z - of_real (A ! 0 ! 0)) * (z - of_real (A ! 1 ! 1)) -
     of_real (A ! 0 ! 1) * of_real (A ! 1 ! 0)"

definition is_pole :: "real list list \<Rightarrow> complex \<Rightarrow> bool" where
  "is_pole A z = (char_poly2 A z = 0)"

text \<open>The state matrix of the closed loop at the origin for \<open>kp = 10\<close>.\<close>

definition clsys_A_kp10 :: "real list list" where
  "clsys_A_kp10 = [[0, 1], [- 9, - (1 / 2)]]"

section \<open>Servomechanism (frequency-domain notebook)\<close>

text \<open>
  \<^verbatim>\<open>
  def servomech_update(t, x, u, params):
      theta = x[0]; thetadot = x[1]; tau = u[0]
      J, b, k, r = map(params.get, ['J', 'b', 'k', 'r'])
      dthetadot = 1/J * (-b * thetadot - k * r * np.sin(theta) + tau)
      return np.array([thetadot, dthetadot])
  \<close>
  \<open>params.get\<close> yields \<open>None\<close> for a missing key; the first arithmetic on
  \<open>None\<close> raises TypeError. \<open>1/J\<close> is evaluated first, then \<open>-b\<close>, then
  \<open>k * r\<close>.
\<close>

definition servomech_params :: "string \<rightharpoonup> real" where
  "servomech_params =
     [''J'' \<mapsto> 100, ''b'' \<mapsto> 10, ''k'' \<mapsto> 1, ''r'' \<mapsto> 1, ''l'' \<mapsto> 2, ''eps'' \<mapsto> 1/100]"

definition need_num :: "real option \<Rightarrow> exn + real" where
  "need_num v = (case v of None \<Rightarrow> Inl TypeError | Some a \<Rightarrow> Inr a)"

definition servomech_update ::
  "real \<Rightarrow> real list \<Rightarrow> real list \<Rightarrow> (string \<rightharpoonup> real) \<Rightarrow> exn + real list" where
  "servomech_update t x u params =
     and_then (index x 0) (\<lambda>theta.
     and_then (index x 1) (\<lambda>thetadot.
     and_then (index u 0) (\<lambda>tau.
     and_then (need_num (params ''J'')) (\<lambda>J.
     if J = 0 then Inl ZeroDivisionError else
     and_then (need_num (params ''b'')) (\<lambda>b.
     and_then (need_num (params ''k'')) (\<lambda>k.
     and_then (need_num (params ''r'')) (\<lambda>r.
     let dthetadot = 1 / J * (- b * thetadot - k * r * sin theta + tau) in
     Inr [thetadot, dthetadot])))))))"

text \<open>
  \<^verbatim>\<open>u_e = servomech.params['k'] * servomech.params['r'] * np.sin(theta_e)\<close>
\<close>

definition u_e :: "(string \<rightharpoonup> real) \<Rightarrow> real \<Rightarrow> exn + real" where
  "u_e params theta_e =
     and_then (getitem params ''k'') (\<lambda>k.
     and_then (getitem params ''r'') (\<lambda>r.
     Inr (k * r * sin theta_e)))"

section \<open>Kinematic car, differentially flat (linear-quadratic notebook)\<close>

text \<open>
  The flat maps of the kinematic car compute in float64: the arrays \<open>np.zeros(3)\<close>
  and \<open>np.zeros(2)\<close> that they fill hold float64 numbers. Their model takes the
  arithmetic as a parameter, a record of the operations the code applies to numbers,
  over a carrier \<open>'f\<close>. \<open>fl_lit\<close> converts the value of a parameter (the
  wheelbase) to the carrier, \<open>fl_sq\<close> is \<open>a**2\<close>. No operation raises: NumPy
  divides a float64 by zero with a warning and the result \<open>inf\<close> or \<open>nan\<close>.
\<close>

record 'f float_ops =
  fl_lit :: "real \<Rightarrow> 'f"
  fl_neg :: "'f \<Rightarrow> 'f"
  fl_add :: "'f \<Rightarrow> 'f \<Rightarrow> 'f"
  fl_sub :: "'f \<Rightarrow> 'f \<Rightarrow> 'f"
  fl_mul :: "'f \<Rightarrow> 'f \<Rightarrow> 'f"
  fl_div :: "'f \<Rightarrow> 'f \<Rightarrow> 'f"
  fl_sq :: "'f \<Rightarrow> 'f"
  fl_cos :: "'f \<Rightarrow> 'f"
  fl_sin :: "'f \<Rightarrow> 'f"
  fl_tan :: "'f \<Rightarrow> 'f"
  fl_arctan2 :: "'f \<Rightarrow> 'f \<Rightarrow> 'f"

text \<open>
  \<open>np.arctan2(y, x)\<close> in exact real arithmetic: the angle of the point
  \<open>(x, y)\<close> in \<open>(-pi, pi]\<close>, and 0 at the origin. The reals have one zero:
  float64 tells \<open>arctan2(-0.0, -1.0) = -pi\<close> from \<open>arctan2(0.0, -1.0) = pi\<close>,
  this function does not.
\<close>

definition np_arctan2 :: "real \<Rightarrow> real \<Rightarrow> real" where
  "np_arctan2 y x =
     (if 0 < x then arctan (y / x)
      else if x < 0 then (if 0 \<le> y then arctan (y / x) + pi else arctan (y / x) - pi)
      else if 0 < y then pi / 2
      else if y < 0 then - (pi / 2)
      else 0)"

text \<open>
  Exact real arithmetic, in which no result is rounded. It is an idealisation of
  float64, not float64: a division by zero has no counterpart in it (\<open>a / 0\<close> is 0
  in HOL), and what is proved in it is stated for a non-zero wheelbase.
\<close>

definition exact_ops :: "real float_ops" where
  "exact_ops =
     \<lparr>fl_lit = (\<lambda>r. r), fl_neg = uminus, fl_add = (+), fl_sub = (-), fl_mul = (*),
      fl_div = (/), fl_sq = (\<lambda>a. a\<^sup>2), fl_cos = cos, fl_sin = sin, fl_tan = tan,
      fl_arctan2 = np_arctan2\<rparr>"

text \<open>
  Underflow in IEEE 754 binary64 with rounding to nearest: a product, quotient or
  square whose exact value is smaller in magnitude than \<open>2^-1075\<close>, half the
  smallest subnormal number, is zero. \<open>underflow_ops\<close> is real arithmetic with this
  one feature of float64 added to multiplication, division and squaring. It follows
  the IEEE standard, not the sources; the rounding of larger results, overflow,
  \<open>inf\<close>, \<open>nan\<close> and the sign of zero are not in it.
\<close>

definition flush :: "real \<Rightarrow> real" where
  "flush a = (if \<bar>a\<bar> < 1 / 2 ^ 1075 then 0 else a)"

definition underflow_ops :: "real float_ops" where
  "underflow_ops =
     \<lparr>fl_lit = (\<lambda>r. r), fl_neg = uminus, fl_add = (+), fl_sub = (-),
      fl_mul = (\<lambda>a b. flush (a * b)), fl_div = (\<lambda>a b. flush (a / b)),
      fl_sq = (\<lambda>a. flush (a\<^sup>2)), fl_cos = cos, fl_sin = sin, fl_tan = tan,
      fl_arctan2 = np_arctan2\<rparr>"

text \<open>
  A forward speed that is a float64 number (a power of two) and whose square is below
  \<open>2^-1075\<close>.
\<close>

definition slow :: real where
  "slow = 1 / 2 ^ 600"

text \<open>\<open>zflag[i][j]\<close>\<close>

definition index2 :: "'a list list \<Rightarrow> nat \<Rightarrow> nat \<Rightarrow> exn + 'a" where
  "index2 z i j = and_then (index z i) (\<lambda>row. index row j)"

text \<open>
  \<^verbatim>\<open>
  def _kincar_flat_forward(x, u, params={}):
      b = params.get('wheelbase', 3.)
      zflag = [np.zeros(3), np.zeros(3)]
      zflag[0][0] = x[0]
      zflag[1][0] = x[1]
      zflag[0][1] = u[0] * np.cos(x[2])  # dx/dt
      zflag[1][1] = u[0] * np.sin(x[2])  # dy/dt
      thdot = (u[0]/b) * np.tan(u[1])
      zflag[0][2] = -u[0] * thdot * np.sin(x[2])
      zflag[1][2] =  u[0] * thdot * np.cos(x[2])
      return zflag
  \<close>
  \<open>x\<close> and \<open>u\<close> are NumPy arrays, as the flat-system library passes them. A
  string for \<open>wheelbase\<close> raises TypeError at \<open>u[0]/b\<close>, before \<open>u[1]\<close>
  is read. Products associate to the left, as Python evaluates them. The leading
  underscore of the source's names is dropped.
\<close>

definition kincar_flat_forward ::
  "'f float_ops \<Rightarrow> 'f list \<Rightarrow> 'f list \<Rightarrow> (string \<rightharpoonup> pyval) \<Rightarrow> exn + 'f list list" where
  "kincar_flat_forward ops x u params =
     (let b = dict_get params ''wheelbase'' (Num 3) in
      and_then (index x 0) (\<lambda>x0.
      and_then (index x 1) (\<lambda>x1.
      and_then (index u 0) (\<lambda>u0.
      and_then (index x 2) (\<lambda>x2.
      let z01 = fl_mul ops u0 (fl_cos ops x2);
          z11 = fl_mul ops u0 (fl_sin ops x2) in
      case b of
        Str s \<Rightarrow> Inl TypeError
      | Num bv \<Rightarrow>
          and_then (index u 1) (\<lambda>u1.
          let thdot = fl_mul ops (fl_div ops u0 (fl_lit ops bv)) (fl_tan ops u1) in
          Inr [[x0, z01, fl_mul ops (fl_mul ops (fl_neg ops u0) thdot) (fl_sin ops x2)],
               [x1, z11, fl_mul ops (fl_mul ops u0 thdot) (fl_cos ops x2)]]))))))"

text \<open>
  \<^verbatim>\<open>
  def _kincar_flat_reverse(zflag, params={}):
      b = params.get('wheelbase', 3.)
      dir = params.get('dir', 'f')
      x = np.zeros(3)
      u = np.zeros(2)
      x[0] = zflag[0][0]  # x position
      x[1] = zflag[1][0]  # y position
      if dir == 'f':
          x[2] = np.arctan2(zflag[1][1], zflag[0][1])  # tan(theta) = ydot/xdot
      elif dir == 'r':
          x[2] = np.arctan2(-zflag[1][1], -zflag[0][1])
      else:
          raise ValueError("unknown direction:", dir)
      u[0] = zflag[0][1] * np.cos(x[2]) + zflag[1][1] * np.sin(x[2])
      thdot_v = zflag[1][2] * np.cos(x[2]) - zflag[0][2] * np.sin(x[2])
      u[1] = np.arctan2(thdot_v, u[0]**2 / b)
      return x, u
  \<close>
  \<open>u[0]\<close> is a float64, so \<open>u[0]**2 / b\<close> does not raise for \<open>b = 0\<close>;
  for a string \<open>b\<close> it raises TypeError.
\<close>

definition kincar_flat_reverse ::
  "'f float_ops \<Rightarrow> 'f list list \<Rightarrow> (string \<rightharpoonup> pyval) \<Rightarrow> exn + ('f list \<times> 'f list)" where
  "kincar_flat_reverse ops zflag params =
     (let b = dict_get params ''wheelbase'' (Num 3);
          dir = dict_get params ''dir'' (Str ''f'') in
      and_then (index2 zflag 0 0) (\<lambda>z00.
      and_then (index2 zflag 1 0) (\<lambda>z10.
      and_then
        (if dir = Str ''f'' then
           and_then (index2 zflag 1 1) (\<lambda>z11.
           and_then (index2 zflag 0 1) (\<lambda>z01.
           Inr (fl_arctan2 ops z11 z01)))
         else if dir = Str ''r'' then
           and_then (index2 zflag 1 1) (\<lambda>z11.
           and_then (index2 zflag 0 1) (\<lambda>z01.
           Inr (fl_arctan2 ops (fl_neg ops z11) (fl_neg ops z01))))
         else Inl (ValueError ''unknown direction:'' dir)) (\<lambda>x2.
      and_then (index2 zflag 0 1) (\<lambda>z01.
      and_then (index2 zflag 1 1) (\<lambda>z11.
      let u0 = fl_add ops (fl_mul ops z01 (fl_cos ops x2)) (fl_mul ops z11 (fl_sin ops x2)) in
      and_then (index2 zflag 1 2) (\<lambda>z12.
      and_then (index2 zflag 0 2) (\<lambda>z02.
      let thdot_v = fl_sub ops (fl_mul ops z12 (fl_cos ops x2))
                               (fl_mul ops z02 (fl_sin ops x2)) in
      case b of
        Str s \<Rightarrow> Inl TypeError
      | Num bv \<Rightarrow>
          Inr ([z00, z10, x2],
               [u0, fl_arctan2 ops thdot_v (fl_div ops (fl_sq ops u0) (fl_lit ops bv))])))))))))"

section \<open>Riccati solution trajectory (linear-quadratic notebook)\<close>

text \<open>
  A two-dimensional array is the list of its rows, a three-dimensional array the list of
  its planes. \<open>Psol\<close>, the value returned by \<open>solve_ivp\<close>, carries the time
  points \<open>Psol.t\<close> and the solution values \<open>Psol.y\<close> (one row per component
  of the state vector, one column per time point): the fields \<open>sol_t\<close> and
  \<open>sol_y\<close>.
\<close>

record ode_result =
  sol_t :: "real list"
  sol_y :: "real list list"

text \<open>
  \<open>np.reshape(a, (n, n, -1))\<close> of a two-dimensional array: the elements are read in
  row-major order; the last dimension \<open>N\<close> is inferred from the size, which must be
  a multiple of \<open>n * n\<close>; entry \<open>[i][j]\<close> of the result holds the \<open>N\<close>
  elements from position \<open>(i * n + j) * N\<close>.
\<close>

definition np_reshape3 :: "nat \<Rightarrow> real list list \<Rightarrow> exn + real list list list" where
  "np_reshape3 n a =
     (let flat = concat a; m = n * n in
      if m = 0 \<or> length flat mod m \<noteq> 0
      then Inl (ValueError ''cannot reshape array'' (Num (real (length flat))))
      else
        let N = length flat div m in
        Inr (map (\<lambda>i. map (\<lambda>j. take N (drop ((i * n + j) * N) flat)) [0..<n]) [0..<n]))"

text \<open>
  \<^verbatim>\<open>
  P0 = np.reshape(Pf, (-1))
  Psol = sp.integrate.solve_ivp(Pdot_reverse, (0, Tf), P0)
  Pfwd = np.reshape(Psol.y, (sys.nstates, sys.nstates, -1))

  # Reorder the solution in time
  Prev = Pfwd[:, :, ::-1]
  trev = Tf - Psol.t[::-1]
  \<close>
  \<open>riccati_P0\<close> is the flattened terminal cost handed to the solver;
  \<open>riccati_reorder\<close> is the code after the solver has returned \<open>Psol\<close>.
\<close>

definition riccati_P0 :: "real list list \<Rightarrow> real list" where
  "riccati_P0 Pf = concat Pf"

definition riccati_reorder ::
  "nat \<Rightarrow> real \<Rightarrow> ode_result \<Rightarrow> exn + (real list \<times> real list list list)" where
  "riccati_reorder nstates Tf Psol =
     and_then (np_reshape3 nstates (sol_y Psol)) (\<lambda>Pfwd.
     let Prev = map (map rev) Pfwd;
         trev = map (\<lambda>s. Tf - s) (rev (sol_t Psol))
     in Inr (trev, Prev))"

text \<open>
  \<open>Prev[:,:,-1]\<close>, printed by the notebook: IndexError when the last axis is empty.
\<close>

definition slice_last :: "real list list list \<Rightarrow> exn + real list list" where
  "slice_last A =
     (if list_ex (list_ex (\<lambda>v. v = [])) A then Inl IndexError else Inr (map (map last) A))"

text \<open>
  \<^verbatim>\<open>P = sp.interpolate.interp1d(trev, Prev)\<close>
  The interpolation routine is external and is a parameter of the model.
\<close>

definition riccati_interp ::
  "(real list \<Rightarrow> real list list list \<Rightarrow> 'f) \<Rightarrow> nat \<Rightarrow> real \<Rightarrow> ode_result \<Rightarrow> exn + 'f" where
  "riccati_interp interp1d nstates Tf Psol =
     and_then (riccati_reorder nstates Tf Psol) (\<lambda>(trev, Prev). Inr (interp1d trev Prev))"

text \<open>
  What the notebook relies on from \<open>solve_ivp(fun, (0, Tf), P0)\<close> when the
  integration succeeds: the time points start at 0, end at \<open>Tf\<close> and do not
  decrease; \<open>y\<close> has one row per component of \<open>P0\<close> and one column per time
  point; the first column is \<open>P0\<close>.
\<close>

definition solve_ivp_result :: "real \<Rightarrow> real list \<Rightarrow> ode_result \<Rightarrow> bool" where
  "solve_ivp_result Tf P0 Psol =
     (sol_t Psol \<noteq> [] \<and> hd (sol_t Psol) = 0 \<and> last (sol_t Psol) = Tf \<and>
      sorted (sol_t Psol) \<and>
      length (sol_y Psol) = length P0 \<and>
      list_all (\<lambda>row. length row = length (sol_t Psol)) (sol_y Psol) \<and>
      map hd (sol_y Psol) = P0)"

text \<open>
  \<^verbatim>\<open>
  Tf = 4
  Qx = np.diag([1, 1, 1])       # state costs
  Qu = np.diag([1, 1])          # input costs
  Pf = np.diag([1, 1, 1])       # terminal costs
  \<close>
  The notebook's constants carry the suffix \<open>_lq\<close>.
\<close>

definition Tf_lq :: real where
  "Tf_lq = 4"

definition Qx_lq :: "real list list" where
  "Qx_lq = [[1, 0, 0], [0, 1, 0], [0, 0, 1]]"

definition Qu_lq :: "real list list" where
  "Qu_lq = [[1, 0], [0, 1]]"

definition Pf_lq :: "real list list" where
  "Pf_lq = [[1, 0, 0], [0, 1, 0], [0, 0, 1]]"

text \<open>A square matrix with \<open>n\<close> rows.\<close>

definition square :: "nat \<Rightarrow> real list list \<Rightarrow> bool" where
  "square n M = (length M = n \<and> list_all (\<lambda>row. length row = n) M)"

section \<open>Right-hand side of the Riccati equation (linear-quadratic notebook)\<close>

text \<open>
  NumPy's operations on two-dimensional arrays (lists of rows of equal length), over the
  reals. \<open>cols\<close> is the second dimension; \<open>X @ Y\<close> needs the columns of
  \<open>X\<close> to match the rows of \<open>Y\<close>; \<open>X + Y\<close> and \<open>X - Y\<close> broadcast
  a dimension of length 1; \<open>M.T\<close> is the transpose; \<open>np.reshape(x, (n, n))\<close> of a
  one-dimensional array needs \<open>n * n\<close> elements.
\<close>

definition cols :: "real list list \<Rightarrow> nat" where
  "cols M = (case M of [] \<Rightarrow> 0 | r # rs \<Rightarrow> length r)"

text \<open>The array of \<open>r\<close> rows and \<open>c\<close> columns with entry \<open>e i j\<close>.\<close>

definition mat_of :: "nat \<Rightarrow> nat \<Rightarrow> (nat \<Rightarrow> nat \<Rightarrow> real) \<Rightarrow> real list list" where
  "mat_of r c e = map (\<lambda>i. map (\<lambda>j. e i j) [0..<c]) [0..<r]"

definition np_matmul :: "real list list \<Rightarrow> real list list \<Rightarrow> exn + real list list" where
  "np_matmul X Y =
     (if cols X \<noteq> length Y
      then Inl (ValueError ''matmul: mismatch in its core dimension'' (Num (real (cols X))))
      else Inr (mat_of (length X) (cols Y) (\<lambda>i j. \<Sum>k<length Y. X ! i ! k * Y ! k ! j)))"

definition np_T :: "real list list \<Rightarrow> real list list" where
  "np_T M = mat_of (cols M) (length M) (\<lambda>j i. M ! i ! j)"

definition np_broadcast ::
  "(real \<Rightarrow> real \<Rightarrow> real) \<Rightarrow> real list list \<Rightarrow> real list list \<Rightarrow> exn + real list list" where
  "np_broadcast f X Y =
     (let r1 = length X; c1 = cols X; r2 = length Y; c2 = cols Y in
      if (r1 = r2 \<or> r1 = 1 \<or> r2 = 1) \<and> (c1 = c2 \<or> c1 = 1 \<or> c2 = 1)
      then Inr (mat_of (if r1 = 1 then r2 else r1) (if c1 = 1 then c2 else c1)
                  (\<lambda>i j. f (X ! (if r1 = 1 then 0 else i) ! (if c1 = 1 then 0 else j))
                           (Y ! (if r2 = 1 then 0 else i) ! (if c2 = 1 then 0 else j))))
      else Inl (ValueError ''operands could not be broadcast together'' (Num (real r1))))"

definition np_add :: "real list list \<Rightarrow> real list list \<Rightarrow> exn + real list list" where
  "np_add = np_broadcast (+)"

definition np_sub :: "real list list \<Rightarrow> real list list \<Rightarrow> exn + real list list" where
  "np_sub = np_broadcast (-)"

definition np_reshape2 :: "nat \<Rightarrow> real list \<Rightarrow> exn + real list list" where
  "np_reshape2 n x =
     (if length x \<noteq> n * n
      then Inl (ValueError ''cannot reshape array'' (Num (real (length x))))
      else Inr (map (\<lambda>i. take n (drop (i * n) x)) [0..<n]))"

text \<open>
  \<^verbatim>\<open>
  def Pdot_reverse(t, x):
      # Get the P matrix from the state by resizing
      P = np.reshape(x, (sys.nstates, sys.nstates))

      # Compute the right hand side of Riccati ODE
      Prhs = P @ sys.A + sys.A.T @ P + Qx - \\
          P @ sys.B @ np.linalg.inv(Qu) @ sys.B.T @ P

      # Return P as a vector, *backwards* in time (no minus sign)
      return Prhs.reshape((-1))
  \<close>
  The function reads the globals \<open>sys\<close> (the linearized car, built by the library:
  its matrices \<open>A\<close> and \<open>B\<close> are parameters here, and \<open>sys.nstates\<close> is the
  number of rows of \<open>A\<close>), \<open>Qx\<close> and \<open>Qu\<close>. The matrix inverse
  \<open>np.linalg.inv\<close> is external and is the parameter \<open>linalg_inv\<close>. The operands
  are evaluated from left to right.
\<close>

definition Pdot_reverse ::
  "(real list list \<Rightarrow> exn + real list list) \<Rightarrow>
   real list list \<Rightarrow> real list list \<Rightarrow> real list list \<Rightarrow> real list list \<Rightarrow>
   real \<Rightarrow> real list \<Rightarrow> exn + real list" where
  "Pdot_reverse linalg_inv A B Qx Qu t x =
     and_then (np_reshape2 (length A) x) (\<lambda>P.
     and_then (np_matmul P A) (\<lambda>PA.
     and_then (np_matmul (np_T A) P) (\<lambda>ATP.
     and_then (np_add PA ATP) (\<lambda>S1.
     and_then (np_add S1 Qx) (\<lambda>S2.
     and_then (np_matmul P B) (\<lambda>PB.
     and_then (linalg_inv Qu) (\<lambda>Qi.
     and_then (np_matmul PB Qi) (\<lambda>PBQ.
     and_then (np_matmul PBQ (np_T B)) (\<lambda>PBQB.
     and_then (np_matmul PBQB P) (\<lambda>Quad.
     and_then (np_sub S2 Quad) (\<lambda>Prhs.
     Inr (concat Prhs))))))))))))"

text \<open>
  \<^verbatim>\<open>Psol = sp.integrate.solve_ivp(Pdot_reverse, (0, Tf), P0)\<close>
  The integrator is external: it is a parameter, and it is handed the notebook's
  function as the right-hand side.
\<close>

definition riccati_solve ::
  "((real \<Rightarrow> real list \<Rightarrow> exn + real list) \<Rightarrow> real \<times> real \<Rightarrow> real list \<Rightarrow> 'r) \<Rightarrow>
   (real list list \<Rightarrow> exn + real list list) \<Rightarrow>
   real list list \<Rightarrow> real list list \<Rightarrow> real list list \<Rightarrow> real list list \<Rightarrow>
   real \<Rightarrow> real list list \<Rightarrow> 'r" where
  "riccati_solve solve_ivp linalg_inv A B Qx Qu Tf Pf =
     solve_ivp (Pdot_reverse linalg_inv A B Qx Qu) (0, Tf) (riccati_P0 Pf)"

text \<open>
  The functions that the linear-quadratic notebook defines with \<open>def\<close>, in source
  order, and the name of the first argument of its call of \<open>solve_ivp\<close> for the
  Riccati equation.
\<close>

definition lq_notebook_defs :: "string list" where
  "lq_notebook_defs =
     [''_kincar_flat_forward'', ''_kincar_flat_reverse'', ''_kincar_update'',
      ''_kincar_output'', ''plot_lanechange'', ''Pdot_reverse'', ''xdot_forward'']"

definition riccati_rhs_argument :: string where
  "riccati_rhs_argument = ''Pdot_reverse''"

text \<open>
  The textbook right-hand side \<open>P A + A\<^sup>T P + Q\<^sub>x - P B Q\<^sub>u\<^sup>-\<^sup>1 B\<^sup>T P\<close>, entry by
  entry, for \<open>n\<close> states and \<open>m\<close> inputs; \<open>Qi\<close> is the inverse of
  \<open>Q\<^sub>u\<close>. This is the formula of the notebook's prose, not the code.
\<close>

definition riccati_rhs_entry ::
  "nat \<Rightarrow> nat \<Rightarrow> real list list \<Rightarrow> real list list \<Rightarrow> real list list \<Rightarrow> real list list \<Rightarrow>
   real list list \<Rightarrow> nat \<Rightarrow> nat \<Rightarrow> real" where
  "riccati_rhs_entry n m A B Qx Qi P i j =
     (\<Sum>k<n. P ! i ! k * A ! k ! j) + (\<Sum>k<n. A ! k ! i * P ! k ! j) + Qx ! i ! j -
     (\<Sum>d<n. (\<Sum>c<m. (\<Sum>b<m. (\<Sum>a<n. P ! i ! a * B ! a ! b) * Qi ! b ! c) * B ! d ! c) *
        P ! d ! j)"

text \<open>An array of \<open>r\<close> rows and \<open>c\<close> columns.\<close>

definition has_shape :: "nat \<Rightarrow> nat \<Rightarrow> real list list \<Rightarrow> bool" where
  "has_shape r c M = (length M = r \<and> list_all (\<lambda>row. length row = c) M)"

text \<open>
  The inverse of a 2 x 2 matrix, as \<open>np.linalg.inv\<close> computes it over the reals
  (LinAlgError for a singular matrix); other shapes are not covered and are reported
  the same way. It stands for the external routine where a concrete one is needed.
\<close>

fun linalg_inv_2x2 :: "real list list \<Rightarrow> exn + real list list" where
  "linalg_inv_2x2 [[a, b], [c, d]] =
     (if a * d - b * c = 0 then Inl LinAlgError
      else Inr [[d / (a * d - b * c), - b / (a * d - b * c)],
                [- c / (a * d - b * c), a / (a * d - b * c)]])"
| "linalg_inv_2x2 M = Inl LinAlgError"

text \<open>
  \<^verbatim>\<open>
  def _kincar_update(t, x, u, params):
      b = params.get('wheelbase', 3.)             # get parameter values
      dx = np.array([
          np.cos(x[2]) * u[0],
          np.sin(x[2]) * u[0],
          (u[0]/b) * np.tan(u[1])
      ])
      return dx
  \<close>
\<close>

definition kincar_update ::
  "real \<Rightarrow> real list \<Rightarrow> real list \<Rightarrow> (string \<rightharpoonup> pyval) \<Rightarrow> exn + real list" where
  "kincar_update t x u params =
     (let b = dict_get params ''wheelbase'' (Num 3) in
      and_then (index x 2) (\<lambda>x2.
      and_then (index u 0) (\<lambda>u0.
      case b of
        Str s \<Rightarrow> Inl TypeError
      | Num bv \<Rightarrow>
          and_then (index u 1) (\<lambda>u1.
          if bv = 0 then Inl NonFinite
          else Inr [cos x2 * u0, sin x2 * u0, (u0 / bv) * tan u1]))))"

text \<open>
  \<^verbatim>\<open>
  x0 = np.array([-40, -2., 0.])
  u0 = np.array([10, 0])               # only used for linearization
  sys = kincar.linearize(x0, u0)
  \<close>
  \<open>sys.A\<close> and \<open>sys.B\<close>: the Jacobians of \<open>_kincar_update\<close> with respect
  to the state and to the input at \<open>x0\<close>, \<open>u0\<close>, taken exactly (the library
  approximates them by finite differences).
\<close>

definition kincar_A :: "real list list" where
  "kincar_A = [[0, 0, 0], [0, 0, 10], [0, 0, 0]]"

definition kincar_B :: "real list list" where
  "kincar_B = [[1, 0], [0, 0], [0, 10 / 3]]"

section \<open>The code cells of the five notebooks, statement by statement\<close>

text \<open>
  Every code cell of the sources is transcribed as the list of its statements. A
  statement is transcribed by its kind, an expression by the calls in it:

    \<^item> \<open>import m\<close>, \<open>import m as n\<close> and \<open>from m import \<dots>\<close> are
      \<open>Import m\<close>;
    \<^item> \<open>def f(\<dots>): body\<close> is \<open>Def f body\<close>;
    \<^item> \<open>return e\<close> is \<open>Return\<close>, \<open>targets = e\<close> is \<open>Assign targets\<close>, an
      expression statement \<open>e\<close> is \<open>Expr\<close>, each with the calls of \<open>e\<close>;
    \<^item> the IPython line \<open>!command\<close> is \<open>Shell command\<close>;
    \<^item> \<open>raise E(\<dots>)\<close> is \<open>Raise E\<close>;
    \<^item> \<open>if c: a else: b\<close> is \<open>IfElse\<close> with the calls of \<open>c\<close>, and \<open>elif\<close>
      is an \<open>IfElse\<close> in the else branch;
    \<^item> \<open>for v in e: body\<close> is \<open>For\<close> with the calls of \<open>e\<close>;
    \<^item> \<open>try: body except E: handler\<close> is \<open>Try body E handler\<close>.

  The sources hold no other kind of statement (no \<open>while\<close>, \<open>with\<close>,
  \<open>assert\<close>, \<open>class\<close>, \<open>del\<close>, \<open>global\<close> or augmented assignment, and no
  \<open>else\<close> or \<open>finally\<close> on a \<open>try\<close>).

  The calls of an expression are the callees of the calls that occur in it, in the
  order in which the calls are made (the arguments of a call before the call). A
  callee is written as its dotted path, with \<open>()\<close> for the result of a call,
  \<open>[]\<close> for a subscript and \<open>_\<close> for any other expression:
  \<open>ct.step_response(T).plot(\<dots>)\<close> makes the calls \<open>ct.step_response\<close> and
  \<open>ct.step_response().plot\<close>. Literals, operators and the reading of variables
  are not transcribed.

  A target of an assignment is a variable (\<open>Var\<close>), an attribute of an object
  (\<open>P.name = \<dots>\<close> is \<open>Attr P name\<close>) or an item or slice of an object
  (\<open>ud[:, i] = \<dots>\<close> is \<open>Item ud\<close>, \<open>zflag[0][1] = \<dots>\<close> is
  \<open>Item zflag[]\<close>); a tuple of targets is the list of its members.
\<close>

datatype target = Var string | Attr string string | Item string

datatype stmt =
    Import string
  | Def string "stmt list"
  | Return "string list"
  | Assign "target list" "string list"
  | Expr "string list"
  | Shell string
  | Raise string
  | IfElse "string list" "stmt list" "stmt list"
  | For "string list" "stmt list"
  | Try "stmt list" string "stmt list"

text \<open>
  The notebook
  \<open>Nonlinear Dynamics (and Control) of an Inverted Pendulum System\<close>
  (src/examples/cds110-L2_invpend-dynamics.ipynb). Its code cells, numbered from 0,
  with the lines of their source: cell 0 (lines 26-35), cell 1 (lines 81-91),
  cell 2 (lines 118-123), cell 3 (lines 158-166), cell 4 (lines 186-190),
  cell 5 (lines 215-217), cell 6 (lines 246-247), cell 7 (lines 282-288),
  cell 8 (lines 297-306), cell 9 (lines 336-341), cell 10 (lines 350-357),
  cell 11 (lines 366-369), cell 12 (lines 387-391), cell 13 (empty).
\<close>

definition invpend_notebook :: "stmt list list" where
  "invpend_notebook =
    [[
      Import ''numpy'',
      Import ''matplotlib.pyplot'',
      Import ''math'',
      Try [Import ''control'', Expr [''print'']] ''ImportError''
        [Shell ''pip install control'', Import ''control'']],
     [
      Assign [Var ''invpend_params''] [],
      Def ''invpend_update'' [
        Assign [Var ''m'', Var ''l'', Var ''b'', Var ''g''] [],
        Assign [Var ''umax''] [''params.get''],
        Assign [Var ''usat''] [''np.clip''],
        Return [''np.sin'']],
      Assign [Var ''invpend''] [''ct.nlsys''],
      Expr [''print'']],
     [Expr [''ct.phase_plane_plot''], Expr [''plt.plot''], Expr [''plt.plot'']],
     [
      Def ''propctrl_output'' [Assign [Var ''kp''] [''params.get''], Return []],
      Assign [Var ''propctrl''] [''ct.nlsys''],
      Expr [''print'']],
     [Assign [Var ''clsys''] [''ct.interconnect''], Expr [''print'']],
     [For [] [Expr [''clsys.linearize'', ''clsys.linearize().poles'', ''print'']]],
     [Expr [''ct.phase_plane_plot'']],
     [
      Assign [Var ''kp_params''] [],
      Expr [''ct.phase_plane_plot''],
      Expr [''plt.plot''],
      Expr [''plt.plot'']],
     [
      Assign [Var ''fig'', Var ''axs''] [''plt.subplots''],
      For [''enumerate''] [
        For [''enumerate''] [Expr [''ct.phase_plane_plot''], Expr [''axs[].set_title'']]],
      Expr [''plt.tight_layout'']],
     [
      Assign [Var ''P''] [''invpend.linearize''],
      Assign [Var ''K''] [''ct.place''],
      Expr [''print'']],
     [
      Def ''statefbk_output'' [Assign [Var ''K''] [''np.array'', ''params.get''], Return []],
      Assign [Var ''statefbk''] [''ct.nlsys''],
      Expr [''print'']],
     [Assign [Var ''clsys_sf''] [''ct.interconnect''], Expr [''print'']],
     [Expr [''ct.phase_plane_plot''], Expr [''plt.plot''], Expr [''plt.plot'']],
     []]"

text \<open>
  The notebook \<open>LQR Tracking Example\<close> (src/unnamed/part_000). Its code
  cells, numbered from 0, with the lines of their source: cell 0 (lines 22-24),
  cell 1 (lines 44-46), cell 2 (lines 66-69), cell 3 (lines 87-91),
  cell 4 (lines 121-131), cell 5 (lines 151-157), cell 6 (lines 187-196),
  cell 7 (lines 214-217), cell 8 (lines 239-250), cell 9 (empty).
\<close>

definition tracking_notebook :: "stmt list list" where
  "tracking_notebook =
    [[Import ''numpy'', Import ''matplotlib.pyplot'', Import ''control''],
     [Assign [Var ''sys''] [''np.eye'', ''ct.ss''], Expr [''print'']],
     [
      Assign [Var ''x0''] [''np.array''],
      Assign [Var ''u0''] [''np.array''],
      Assign [Var ''Tf''] []],
     [
      Assign [Var ''K'', Var ''_'', Var ''_''] [''np.eye'', ''np.eye'', ''ct.lqr''],
      Assign [Var ''ctrl'', Var ''clsys''] [''ct.create_statefbk_iosystem''],
      Expr [''print''],
      Expr [''print'']],
     [
      Assign [Var ''tvec''] [''np.linspace''],
      Assign [Var ''xd''] [],
      Assign [Var ''ud''] [],
      Assign [Var ''U''] [''np.hstack'', ''np.ones_like'', ''np.outer''],
      Assign [Var ''time'', Var ''output''] [''ct.input_output_response''],
      Expr [''plt.plot''],
      Expr [''plt.plot''],
      Expr [''plt.legend'']],
     [
      Assign [Var ''delta''] [],
      Assign [Var ''U''] [''np.hstack'', ''np.ones_like'', ''np.outer''],
      Assign [Var ''time'', Var ''output''] [''ct.input_output_response''],
      Expr [''plt.plot''],
      Expr [''plt.plot''],
      Expr [''plt.legend'']],
     [
      Assign [Var ''C''] [''np.array''],
      Assign [Var ''A_aug''] [''np.zeros'', ''np.block''],
      Assign [Var ''B_aug''] [''np.vstack''],
      Expr [''print'']],
     [
      Assign [Var ''K_aug'', Var ''_'', Var ''_''] [''np.diag'', ''np.eye'', ''ct.lqr''],
      Expr [''print'']],
     [
      Assign [Var ''integral_ctrl'', Var ''sys_integral''] [''ct.create_statefbk_iosystem''],
      Expr [''print''],
      Expr [''print''],
      Assign [Var ''delta''] [],
      Assign [Var ''U''] [''np.hstack'', ''np.ones_like'', ''np.outer''],
      Assign [Var ''time'', Var ''output''] [''ct.input_output_response''],
      Expr [''plt.plot''],
      Expr [''plt.plot''],
      Expr [''plt.legend'']],
     []]"

text \<open>
  The notebook \<open>Frequency Domain Analysis using Bode/Nyquist plots\<close>
  (src/unnamed/part_001, lines 1 to 856). Its code cells, numbered from 0, with the
  lines of their source: cell 0 (lines 28-40), cell 1 (lines 101-141),
  cell 2 (lines 163-180), cell 3 (lines 204-212), cell 4 (lines 240-250),
  cell 5 (lines 260-263), cell 6 (lines 295-309), cell 7 (lines 329-340),
  cell 8 (lines 366-386), cell 9 (lines 408-426), cell 10 (lines 448-451),
  cell 11 (lines 471-493), cell 12 (lines 503-507), cell 13 (line 529),
  cell 14 (lines 560-605), cell 15 (lines 642-643), cell 16 (lines 671-681),
  cell 17 (lines 691-703), cell 18 (lines 713-723), cell 19 (line 753),
  cell 20 (lines 785-804), cell 21 (lines 824-825), cell 22 (lines 835-837),
  cell 23 (empty).
\<close>

definition freq_notebook :: "stmt list list" where
  "freq_notebook =
    [[
      Import ''numpy'',
      Import ''matplotlib.pyplot'',
      Import ''math'',
      Try [Import ''control'', Expr [''print'']] ''ImportError''
        [Shell ''pip install control'', Import ''control''],
      Expr [''plt.rcParams.update'']],
     [
      Assign [Var ''servomech_params''] [],
      Def ''servomech_update'' [
        Assign [Var ''theta''] [],
        Assign [Var ''thetadot''] [],
        Assign [Var ''tau''] [],
        Assign [Var ''J'', Var ''b'', Var ''k'', Var ''r''] [''map''],
        Assign [Var ''dthetadot''] [''np.sin''],
        Return [''np.array'']],
      Def ''servomech_output'' [Assign [Var ''l''] [], Return [''np.array'']],
      Assign [Var ''servomech''] [''ct.nlsys''],
      Expr [''print''],
      Expr [''print'']],
     [
      Assign [Var ''theta_e''] [],
      Assign [Var ''u_e''] [''np.sin''],
      Expr [''print''],
      Assign [Var ''P''] [''servomech.linearize''],
      Assign [Attr ''P'' ''name''] [],
      Expr [''print''],
      Expr [''P.zeros'', ''print''],
      Expr [''P.poles'', ''print''],
      Expr [''print''],
      Assign [Var ''P_tf''] [''ct.tf''],
      Expr [''print'']],
     [
      Expr [''ct.set_defaults''],
      Assign [Var ''freqresp''] [''np.logspace'', ''ct.frequency_response''],
      Expr [''freqresp.plot''],
      Expr [''np.logspace'', ''ct.bode_plot'']],
     [
      Assign [Var ''kp''] [],
      Assign [Var ''ki''] [],
      Assign [Var ''C''] [''ct.tf''],
      Expr [''print''],
      Assign [Var ''s''] [''ct.tf''],
      Assign [Var ''C''] [''ct.tf''],
      Expr [''print'']],
     [
      Assign [Var ''L''] [],
      Assign [Var ''cplt''] [''ct.bode_plot''],
      Expr [''cplt.set_plot_title'']],
     [
      Assign [Var ''fig''] [''plt.figure''],
      Assign [Var ''ax1''] [''plt.subplot''],
      Assign [Var ''ax2''] [''plt.subplot''],
      Expr [''ct.bode_plot''],
      Expr [''fig.align_labels''],
      Expr [''ax1.set_title''],
      Assign [Var ''ax2''] [''plt.subplot''],
      Expr [''ct.nyquist_plot''],
      Expr [''plt.title''],
      Expr [''plt.suptitle''],
      Expr [''plt.tight_layout'']],
     [
      Assign [Var ''nyqresp''] [''ct.nyquist_response''],
      Expr [''print''],
      Expr [''L.poles'', ''np.real'', ''np.sum'', ''print''],
      Expr [''_.zeros'', ''np.real'', ''np.sum'', ''print''],
      Expr [''_.zeros'', ''print''],
      Expr [''print''],
      Assign [Var ''T''] [''ct.feedback''],
      Expr [''ct.step_response'', ''ct.step_response().plot'']],
     [
      Assign [Var ''fig''] [''plt.figure''],
      Assign [Var ''ax1''] [''plt.subplot''],
      Expr [''np.real'', ''np.imag'', ''plt.plot''],
      Expr [''plt.axis''],
      Expr [''plt.xlabel''],
      Expr [''plt.ylabel''],
      Expr [''plt.title''],
      Import ''matplotlib'',
      Expr [''ticker.StrMethodFormatter'', ''ax1.xaxis.set_major_formatter''],
      Expr [''ticker.StrMethodFormatter'', ''ax1.yaxis.set_major_formatter''],
      Assign [Var ''ax2''] [''plt.subplot''],
      Expr [''ct.nyquist_plot''],
      Expr [''plt.title''],
      Expr [''plt.suptitle''],
      Expr [''plt.tight_layout'']],
     [
      Assign [Var ''Cnew''] [''ct.tf''],
      Assign [Var ''Lnew''] [''ct.tf''],
      Expr [''plt.figure''],
      Assign [Var ''ax1''] [''plt.subplot''],
      Assign [Var ''ax2''] [''plt.subplot''],
      Expr [''ct.bode_plot''],
      Expr [''ax1.loglog''],
      Expr [''ax1.set_title''],
      Assign [Var ''ax3''] [''plt.subplot''],
      Expr [''ct.nyquist_plot''],
      Expr [''ax3.set_title''],
      Expr [''plt.suptitle''],
      Expr [''plt.tight_layout'']],
     [
      Assign [Var ''Tnew''] [''ct.feedback''],
      Assign [Var ''cplt''] [''ct.step_response'', ''ct.step_response().plot''],
      Expr [''cplt.set_plot_title'']],
     [
      Assign [Var ''Td''] [],
      Assign [Var ''Ti''] [],
      Assign [Var ''kp''] [],
      Assign [Var ''kp''] [],
      Assign [Var ''Ti''] [],
      Assign [Var ''kp''] [],
      Assign [Var ''ki''] [],
      Assign [Var ''kd''] [],
      Assign [Var ''ctrl_shape''] [],
      Assign [Var ''ltf_shape''] [''ct.tf''],
      Assign [Var ''cplt''] [''ct.frequency_response'', ''ct.frequency_response().plot''],
      Assign [Var ''cplt''] [''ct.frequency_response'', ''ct.frequency_response().plot''],
      Expr [''cplt.set_plot_title'']],
     [
      Assign [Var ''T_shape''] [''ct.feedback''],
      Assign [Var ''cplt''] [''ct.step_response'', ''ct.step_response().plot'']],
     [Assign [Var ''cplt''] [''ct.gangof4'']],
     [
      Expr [''plt.figure''],
      Assign [Var ''ax1''] [''plt.subplot''],
      Expr [''plt.title''],
      Assign [Var ''ax2''] [''plt.subplot''],
      Expr [''ct.bode_plot''],
      Assign [Var ''gm'', Var ''pm'', Var ''wpc'', Var ''wgc''] [''ct.margin''],
      Expr [''print''],
      Expr [''print''],
      Assign [Var ''resp''] [''ct.frequency_response''],
      Assign [Var ''sm''] [''np.min''],
      Assign [Var ''wsm''] [''np.argmin''],
      Expr [''print''],
      Assign [Var ''ax3''] [''plt.subplot''],
      Expr [''ct.nyquist_plot''],
      Expr [''plt.title''],
      Expr [''plt.axis''],
      Assign [Var ''Lgm''] [],
      Expr [''plt.plot''],
      Expr [''plt.text''],
      Assign [Var ''theta''] [''np.linspace''],
      Expr [''np.cos'', ''np.sin'', ''plt.plot''],
      Expr [''plt.text''],
      Assign [Var ''Lsm''] [''Lnew''],
      Expr [''plt.plot''],
      Expr [''plt.text''],
      Expr [''plt.suptitle''],
      Expr [''plt.tight_layout'']],
     [Assign [Var ''P''] [''ct.tf''], Expr [''P.poles'']],
     [
      Assign [Var ''kp''] [],
      Assign [Var ''kd''] [],
      Assign [Var ''C''] [''ct.tf''],
      Assign [Var ''L''] [],
      Assign [Attr ''L'' ''name''] [],
      Expr [''print''],
      Expr [''L.zeros'', ''print''],
      Expr [''L.poles'', ''print'']],
     [
      Expr [''plt.figure''],
      Assign [Var ''ax1''] [''plt.subplot''],
      Expr [''plt.title''],
      Assign [Var ''ax2''] [''plt.subplot''],
      Expr [''ct.bode_plot''],
      Assign [Var ''ax3''] [''plt.subplot''],
      Expr [''ct.nyquist_plot''],
      Expr [''plt.title''],
      Expr [''plt.suptitle''],
      Expr [''plt.tight_layout'']],
     [
      Assign [Var ''nyqresp''] [''ct.nyquist_response''],
      Expr [''print''],
      Expr [''L.poles'', ''np.real'', ''np.sum'', ''print''],
      Expr [''_.zeros'', ''np.real'', ''np.sum'', ''print''],
      Expr [''L.poles'', ''print''],
      Expr [''_.zeros'', ''print''],
      Expr [''print''],
      Assign [Var ''T''] [''ct.feedback''],
      Expr [''ct.initial_response'', ''ct.initial_response().plot'']],
     [Expr [''ct.gangof4'']],
     [
      Assign [Var ''Cnew''] [],
      Assign [Attr ''Cnew'' ''name''] [],
      Expr [''print''],
      Assign [Var ''Lnew''] [],
      Assign [Attr ''Lnew'' ''name''] [],
      Expr [''plt.figure''],
      Assign [Var ''ax1''] [''plt.subplot''],
      Assign [Var ''ax2''] [''plt.subplot''],
      Expr [''ct.bode_plot''],
      Expr [''ax1.loglog''],
      Expr [''ax1.set_title''],
      Assign [Var ''ax3''] [''plt.subplot''],
      Expr [''ct.nyquist_plot''],
      Expr [''ax3.set_title''],
      Expr [''plt.suptitle''],
      Expr [''plt.tight_layout'']],
     [Expr [''ct.gangof4'']],
     [
      Assign [Var ''Tnew''] [''ct.feedback''],
      Expr [''ct.step_response'', ''ct.step_response().plot'']],
     []]"

text \<open>
  The notebook \<open>Linear quadratic optimal control example\<close>
  (src/unnamed/part_001, lines 857 to 1255). Its code cells, numbered from 0, with
  the lines of their source: cell 0 (lines 886-892), cell 1 (lines 912-987),
  cell 2 (lines 997-1019), cell 3 (lines 1029-1036), cell 4 (lines 1056-1060),
  cell 5 (lines 1134-1161), cell 6 (lines 1179-1184), cell 7 (lines 1202-1212),
  cell 8 (lines 1222-1228), cell 9 (empty).
\<close>

definition lq_notebook :: "stmt list list" where
  "lq_notebook =
    [[
      Import ''numpy'',
      Import ''scipy'',
      Import ''matplotlib.pyplot'',
      Import ''control'',
      Import ''control.optimal'',
      Import ''control.flatsys'',
      Import ''time''],
     [
      Def ''_kincar_flat_forward'' [
        Assign [Var ''b''] [''params.get''],
        Assign [Var ''zflag''] [''np.zeros'', ''np.zeros''],
        Assign [Item ''zflag[]''] [],
        Assign [Item ''zflag[]''] [],
        Assign [Item ''zflag[]''] [''np.cos''],
        Assign [Item ''zflag[]''] [''np.sin''],
        Assign [Var ''thdot''] [''np.tan''],
        Assign [Item ''zflag[]''] [''np.sin''],
        Assign [Item ''zflag[]''] [''np.cos''],
        Return []],
      Def ''_kincar_flat_reverse'' [
        Assign [Var ''b''] [''params.get''],
        Assign [Var ''dir''] [''params.get''],
        Assign [Var ''x''] [''np.zeros''],
        Assign [Var ''u''] [''np.zeros''],
        Assign [Item ''x''] [],
        Assign [Item ''x''] [],
        IfElse []
          [Assign [Item ''x''] [''np.arctan2'']]
          [IfElse [] [Assign [Item ''x''] [''np.arctan2'']] [Raise ''ValueError'']],
        Assign [Item ''u''] [''np.cos'', ''np.sin''],
        Assign [Var ''thdot_v''] [''np.cos'', ''np.sin''],
        Assign [Item ''u''] [''np.arctan2''],
        Return []],
      Def ''_kincar_update'' [
        Assign [Var ''b''] [''params.get''],
        Assign [Var ''dx''] [''np.cos'', ''np.sin'', ''np.tan'', ''np.array''],
        Return []],
      Def ''_kincar_output'' [Return []],
      Assign [Var ''kincar''] [''fs.FlatSystem'']],
     [
      Def ''plot_lanechange'' [
        Expr [''plt.subplot''],
        Expr [''plt.plot''],
        Expr [''plt.xlabel''],
        Expr [''plt.ylabel''],
        IfElse [] [Expr [''plt.plot'']] [],
        Expr [''plt.subplot''],
        Expr [''plt.plot''],
        Expr [''plt.xlabel''],
        Expr [''plt.ylabel''],
        Expr [''plt.subplot''],
        Expr [''plt.plot''],
        Expr [''plt.xlabel''],
        Expr [''plt.ylabel''],
        Expr [''plt.suptitle''],
        Expr [''plt.tight_layout'']]],
     [
      Assign [Var ''x0''] [''np.array''],
      Assign [Var ''u0''] [''np.array''],
      Assign [Var ''Tf''] [],
      Assign [Var ''sys''] [''kincar.linearize''],
      Expr [''print'']],
     [
      Assign [Var ''Qx''] [''np.diag''],
      Assign [Var ''Qu''] [''np.diag''],
      Assign [Var ''Pf''] [''np.diag'']],
     [
      Def ''Pdot_reverse'' [
        Assign [Var ''P''] [''np.reshape''],
        Assign [Var ''Prhs''] [''np.linalg.inv''],
        Return [''Prhs.reshape'']],
      Assign [Var ''P0''] [''np.reshape''],
      Assign [Var ''Psol''] [''sp.integrate.solve_ivp''],
      Assign [Var ''Pfwd''] [''np.reshape''],
      Assign [Var ''Prev''] [],
      Assign [Var ''trev''] [],
      Expr [''print''],
      Expr [''print''],
      Expr [''print''],
      Assign [Var ''_'', Var ''P_lqr'', Var ''_''] [''ct.lqr''],
      Expr [''print'']],
     [
      Assign [Var ''P''] [''sp.interpolate.interp1d''],
      Expr [''P'', ''print''],
      Expr [''P'', ''print''],
      Expr [''P'', ''print'']],
     [
      Def ''xdot_forward'' [Assign [Var ''u''] [''np.linalg.inv'', ''P''], Return []],
      Assign [Var ''xsol''] [''sp.integrate.solve_ivp''],
      Assign [Var ''tvec''] [],
      Assign [Var ''x''] [],
      Expr [''print''],
      Expr [''print'']],
     [
      Assign [Var ''xd''] [],
      Assign [Var ''ud''] [''np.zeros''],
      For [''enumerate''] [Assign [Item ''ud''] [''np.linalg.inv'', ''P'']],
      Expr [''plot_lanechange'']],
     []]"

text \<open>
  The notebook \<open>Stochastic Response\<close> (src/unnamed/part_001, lines 1256
  to 1583). Its code cells, numbered from 0, with the lines of their source:
  cell 0 (lines 1281-1285), cell 1 (lines 1312-1330), cell 2 (lines 1348-1350),
  cell 3 (lines 1360-1365), cell 4 (lines 1385-1390), cell 5 (lines 1400-1408),
  cell 6 (lines 1418-1427), cell 7 (lines 1447-1460), cell 8 (lines 1507-1515),
  cell 9 (lines 1533-1564), cell 10 (empty).
\<close>

definition stochastic_notebook :: "stmt list list" where
  "stochastic_notebook =
    [[
      Import ''numpy'',
      Import ''scipy'',
      Import ''matplotlib.pyplot'',
      Import ''control'',
      Import ''math''],
     [
      Assign [Var ''a''] [],
      Assign [Var ''c''] [],
      Assign [Var ''sys''] [''ct.tf''],
      Assign [Var ''Tf''] [],
      Assign [Var ''T''] [''np.linspace''],
      Assign [Var ''dt''] [],
      Assign [Var ''Q''] [''np.array''],
      Assign [Var ''V''] [''ct.white_noise''],
      Expr [''plt.plot''],
      Expr [''plt.xlabel''],
      Expr [''plt.ylabel'']],
     [Expr [''np.mean'', ''print''], Expr [''np.cov'', ''np.round'', ''print'']],
     [
      Assign [Var ''T'', Var ''Y''] [''ct.forced_response''],
      Expr [''plt.plot''],
      Expr [''plt.xlabel''],
      Expr [''plt.ylabel'']],
     [
      Def ''r'' [Return [''abs'', ''exp'']],
      Expr [''np.mean'', ''np.mean().item'', ''print''],
      Expr [''r'', ''r().item'', ''np.cov'', ''np.cov().item'', ''print'']],
     [
      Assign [Var ''tau'', Var ''r_V''] [''ct.correlation''],
      Expr [''plt.plot''],
      Expr [''plt.xlabel''],
      Expr [''plt.ylabel'']],
     [
      Assign [Var ''tau'', Var ''r_Y''] [''ct.correlation''],
      Expr [''plt.plot''],
      Expr [''plt.xlabel''],
      Expr [''plt.ylabel''],
      Expr [''r'', ''plt.plot'']],
     [
      Assign [Var ''r_avg''] [''np.zeros_like''],
      For [''range''] [
        Assign [Var ''V''] [''ct.white_noise''],
        Assign [Var ''_'', Var ''Y''] [''ct.forced_response''],
        Assign [Var ''tau'', Var ''r_Y''] [''ct.correlation''],
        Assign [Var ''r_avg''] []],
      Assign [Var ''r_avg''] [],
      Expr [''plt.plot''],
      Expr [''plt.xlabel''],
      Expr [''plt.ylabel''],
      Expr [''r'', ''plt.plot'']],
     [
      Assign [Var ''sigma_z''] [],
      Assign [Var ''T''] [],
      Assign [Var ''filter''] [''sqrt'', ''ct.ss''],
      Assign [Var ''timepts''] [''np.linspace''],
      Assign [Var ''V''] [''ct.white_noise''],
      Assign [Var ''resp''] [''ct.input_output_response''],
      Expr [''plt.plot'']],
     [
      Assign [Var ''tau'', Var ''R''] [''ct.correlation''],
      Def ''dryden_corrfcn'' [Return [''np.abs'', ''np.exp'', ''np.abs'']],
      Assign [Var ''fig'', Var ''axs''] [''plt.subplots''],
      Expr [''axs[].plot''],
      Expr [''dryden_corrfcn'', ''axs[].plot''],
      Expr [''axs[].set_xlabel''],
      Expr [''axs[].set_ylabel''],
      Expr [''axs[].set_title''],
      Assign [Var ''dt''] [],
      Assign [Var ''S''] [''sp.fft.rfft''],
      Assign [Var ''omega''] [''sp.fft.rfftfreq''],
      Def ''dryden_psd'' [Return []],
      Expr [''np.abs'', ''axs[].loglog''],
      Expr [''dryden_psd'', ''axs[].loglog''],
      Expr [''axs[].set_xlabel''],
      Expr [''axs[].set_ylabel''],
      Expr [''axs[].set_title''],
      Expr [''plt.tight_layout'']],
     []]"

definition notebooks :: "stmt list list list" where
  "notebooks =
     [invpend_notebook, tracking_notebook, freq_notebook, lq_notebook, stochastic_notebook]"

text \<open>
  The statements of a statement, at any depth: the statement itself and what its
  blocks contain. \<open>statements nb\<close> are all the statements of a notebook, or of any
  list of cells.
\<close>

fun nested :: "stmt \<Rightarrow> stmt list" and nested_list :: "stmt list \<Rightarrow> stmt list" where
  "nested (Def f body) = Def f body # nested_list body"
| "nested (IfElse c a b) = IfElse c a b # nested_list a @ nested_list b"
| "nested (For c body) = For c body # nested_list body"
| "nested (Try body e h) = Try body e h # nested_list body @ nested_list h"
| "nested s = [s]"
| "nested_list [] = []"
| "nested_list (s # ss) = nested s @ nested_list ss"

definition statements :: "stmt list list \<Rightarrow> stmt list" where
  "statements nb = nested_list (concat nb)"

fun is_raise :: "stmt \<Rightarrow> bool" where
  "is_raise (Raise e) = True"
| "is_raise s = False"

fun is_try :: "stmt \<Rightarrow> bool" where
  "is_try (Try body h handler) = True"
| "is_try s = False"

fun is_branch :: "stmt \<Rightarrow> bool" where
  "is_branch (IfElse cs a b) = True"
| "is_branch s = False"

fun is_loop :: "stmt \<Rightarrow> bool" where
  "is_loop (For cs body) = True"
| "is_loop s = False"

text \<open>
  The functions defined in notebook code, with their bodies, and the names of those
  whose body holds, at any depth, a statement with a given property.
\<close>

fun def_of :: "stmt \<Rightarrow> (string \<times> stmt list) list" where
  "def_of (Def f body) = [(f, body)]"
| "def_of s = []"

definition defined_functions :: "stmt list list \<Rightarrow> (string \<times> stmt list) list" where
  "defined_functions nb = concat (map def_of (statements nb))"

definition functions_containing :: "(stmt \<Rightarrow> bool) \<Rightarrow> stmt list list \<Rightarrow> string list" where
  "functions_containing p nb =
     map fst (filter (\<lambda>fb. list_ex p (nested_list (snd fb))) (defined_functions nb))"


text \<open>
  The assignments to an attribute (object and attribute name) and to an item or slice
  (object) in a list of cells.
\<close>

fun targets_of :: "stmt \<Rightarrow> target list" where
  "targets_of (Assign ts cs) = ts"
| "targets_of s = []"

fun attr_of :: "target \<Rightarrow> (string \<times> string) list" where
  "attr_of (Attr obj a) = [(obj, a)]"
| "attr_of t = []"

fun item_of :: "target \<Rightarrow> string list" where
  "item_of (Item obj) = [obj]"
| "item_of t = []"

definition attribute_assignments :: "stmt list list \<Rightarrow> (string \<times> string) list" where
  "attribute_assignments nb = concat (map attr_of (concat (map targets_of (statements nb))))"

definition item_assignments :: "stmt list list \<Rightarrow> string list" where
  "item_assignments nb = concat (map item_of (concat (map targets_of (statements nb))))"

definition assigns_attribute :: "stmt \<Rightarrow> bool" where
  "assigns_attribute s = (concat (map attr_of (targets_of s)) \<noteq> [])"

text \<open>
  Every statement of a cell that assigns to an attribute and has a statement before it
  and one after it in the cell, between the two.
\<close>

fun attribute_contexts :: "stmt list \<Rightarrow> (stmt \<times> stmt \<times> stmt) list" where
  "attribute_contexts (s # s' # s'' # ss) =
     (if assigns_attribute s' then [(s, s', s'')] else []) @ attribute_contexts (s' # s'' # ss)"
| "attribute_contexts ss = []"

text \<open>
  The \<open>try\<close> statement of the two import cells:
  \<^verbatim>\<open>
  try:
    import control as ct
    print("python-control", ct.__version__)
  except ImportError:
    !pip install control
    import control as ct
  \<close>
\<close>

definition import_try :: stmt where
  "import_try =
     Try [Import ''control'', Expr [''print'']] ''ImportError''
         [Shell ''pip install control'', Import ''control'']"


text \<open>The commands of the shell escapes in a list of statements, at any depth.\<close>

fun shell_of :: "stmt \<Rightarrow> string list" where
  "shell_of (Shell c) = [c]"
| "shell_of s = []"

definition shells :: "stmt list \<Rightarrow> string list" where
  "shells ss = concat (map shell_of (nested_list ss))"




section \<open>Running a cell\<close>

text \<open>
  What the statements of a cell ask of the world outside notebook code is recorded as
  a log of events, in the order in which they happen: the import of a module, a call
  (to a library routine, a built-in or a function defined in a notebook; what the
  callee does is not unfolded), and the run of a shell command in a process of its own.
  An event is logged when the statement starts it, whether it then succeeds or raises.
  The calls of an expression are logged once each, in the order of the transcription.
\<close>

datatype event = Imports string | Calls string | Runs string

text \<open>
  Everything that notebook code does not decide is a parameter: whether an import or a
  call raises, and which exception (by the name of its class), given the log so far;
  which way a condition goes; how many times a loop iterates. Nothing is assumed of
  the Python installation, of the libraries or of the package installer.
\<close>

record env =
  import_fails :: "string \<Rightarrow> event list \<Rightarrow> string option"
  call_fails :: "string \<Rightarrow> event list \<Rightarrow> string option"
  branch :: "event list \<Rightarrow> bool"
  iterations :: "event list \<Rightarrow> nat"

text \<open>A run ends normally or with an exception, in both cases with a log.\<close>

datatype outcome = Done "event list" | Raised string "event list"


fun run_calls :: "env \<Rightarrow> string list \<Rightarrow> event list \<Rightarrow> outcome" where
  "run_calls env [] tr = Done tr"
| "run_calls env (c # cs) tr =
     (case call_fails env c tr of
        Some e \<Rightarrow> Raised e (tr @ [Calls c])
      | None \<Rightarrow> run_calls env cs (tr @ [Calls c]))"

text \<open>
  \<open>except E\<close> catches the exceptions of class \<open>E\<close> and of its subclasses;
  \<open>ModuleNotFoundError\<close>, which the import of a missing module raises, is a
  subclass of \<open>ImportError\<close>. No other subclass relation matters here.
\<close>

definition catches :: "string \<Rightarrow> string \<Rightarrow> bool" where
  "catches handler e =
     (e = handler \<or> (handler = ''ImportError'' \<and> e = ''ModuleNotFoundError''))"

text \<open>
  The run of a statement, of a list of statements and of the body of a loop a number
  of times, from a log. A function definition, an assignment and a \<open>raise\<close> add no
  event of their own; a shell escape does not raise, whatever the command returns. A
  \<open>return\<close> outside a function is not a Python program: the run has no value.
\<close>

fun exec :: "env \<Rightarrow> stmt \<Rightarrow> event list \<Rightarrow> outcome option"
  and exec_list :: "env \<Rightarrow> stmt list \<Rightarrow> event list \<Rightarrow> outcome option"
  and exec_times :: "env \<Rightarrow> nat \<Rightarrow> stmt list \<Rightarrow> event list \<Rightarrow> outcome option"
where
  "exec env (Import m) tr =
     Some (case import_fails env m tr of
             Some e \<Rightarrow> Raised e (tr @ [Imports m])
           | None \<Rightarrow> Done (tr @ [Imports m]))"
| "exec env (Def f body) tr = Some (Done tr)"
| "exec env (Return cs) tr = None"
| "exec env (Assign ts cs) tr = Some (run_calls env cs tr)"
| "exec env (Expr cs) tr = Some (run_calls env cs tr)"
| "exec env (Shell c) tr = Some (Done (tr @ [Runs c]))"
| "exec env (Raise e) tr = Some (Raised e tr)"
| "exec env (IfElse cs a b) tr =
     (case run_calls env cs tr of
        Raised e l \<Rightarrow> Some (Raised e l)
      | Done l \<Rightarrow> if branch env l then exec_list env a l else exec_list env b l)"
| "exec env (For cs body) tr =
     (case run_calls env cs tr of
        Raised e l \<Rightarrow> Some (Raised e l)
      | Done l \<Rightarrow> exec_times env (iterations env l) body l)"
| "exec env (Try body h handler) tr =
     (case exec_list env body tr of
        Some (Raised e l) \<Rightarrow> if catches h e then exec_list env handler l else Some (Raised e l)
      | r \<Rightarrow> r)"
| "exec_list env [] tr = Some (Done tr)"
| "exec_list env (s # ss) tr =
     (case exec env s tr of
        Some (Done l) \<Rightarrow> exec_list env ss l
      | r \<Rightarrow> r)"
| "exec_times env 0 body tr = Some (Done tr)"
| "exec_times env (Suc n) body tr =
     (case exec_list env body tr of
        Some (Done l) \<Rightarrow> exec_times env n body l
      | r \<Rightarrow> r)"





text \<open>
  An example of an environment, assumed for illustration and not derived from the
  sources: the control library cannot be imported (\<open>ModuleNotFoundError\<close>) until
  the command \<open>pip install control\<close> has run, every other import and every call
  succeeds.
\<close>

definition missing_control :: env where
  "missing_control =
     \<lparr>import_fails = (\<lambda>m tr. if m = ''control'' \<and> Runs ''pip install control'' \<notin> set tr
                              then Some ''ModuleNotFoundError'' else None),
      call_fails = (\<lambda>c tr. None),
      branch = (\<lambda>tr. True),
      iterations = (\<lambda>tr. 1)\<rparr>"

section \<open>Nonlinear system constructions\<close>

text \<open>
  The calls of \<open>ct.nlsys\<close> and \<open>fs.FlatSystem\<close> in the notebooks, by what they
  pass: the update function and the output function (by name; \<open>None\<close> when the
  argument is \<open>None\<close> or absent), the parameter mapping given at construction, and
  the defaults that the functions of the system read with \<open>params.get\<close>.
  \<^verbatim>\<open>
  invpend = ct.nlsys(invpend_update, states=['theta', 'thdot'], inputs=['tau'],
      outputs=['theta', 'thdot'], params=invpend_params, name='invpend')
  propctrl = ct.nlsys(None, propctrl_output, name="p_ctrl",
      inputs=['theta', 'r'], outputs='tau')
  statefbk = ct.nlsys(None, statefbk_output, name="k_ctrl",
      inputs=['theta', 'thdot', 'theta_d', 'thdot_d'], outputs='tau')
  servomech = ct.nlsys(servomech_update, servomech_output, name='servomech',
      params=servomech_params, states=['theta_', 'thdot_'], outputs=['y'], inputs=['tau'])
  kincar = fs.FlatSystem(_kincar_flat_forward, _kincar_flat_reverse, name="kincar",
      updfcn=_kincar_update, outfcn=_kincar_output, inputs=('v', 'delta'),
      outputs=('x', 'y', 'theta'), states=('x', 'y', 'theta'))
  \<close>
\<close>

datatype param_value = PNum real | PStr string | PArr "real list"

record nlsys_call =
  sysname :: string
  updfcn :: "string option"
  outfcn :: "string option"
  params_given :: "(string \<times> param_value) list"
  get_defaults :: "(string \<times> param_value) list"

definition invpend_call :: nlsys_call where
  "invpend_call =
     \<lparr>sysname = ''invpend'', updfcn = Some ''invpend_update'', outfcn = None,
      params_given = [(''m'', PNum 1), (''l'', PNum 1), (''b'', PNum (1 / 2)), (''g'', PNum 1)],
      get_defaults = [(''umax'', PNum 1)]\<rparr>"

definition propctrl_call :: nlsys_call where
  "propctrl_call =
     \<lparr>sysname = ''p_ctrl'', updfcn = None, outfcn = Some ''propctrl_output'',
      params_given = [], get_defaults = [(''kp'', PNum 1)]\<rparr>"

definition statefbk_call :: nlsys_call where
  "statefbk_call =
     \<lparr>sysname = ''k_ctrl'', updfcn = None, outfcn = Some ''statefbk_output'',
      params_given = [], get_defaults = [(''K'', PArr [0, 0])]\<rparr>"

definition servomech_call :: nlsys_call where
  "servomech_call =
     \<lparr>sysname = ''servomech'', updfcn = Some ''servomech_update'',
      outfcn = Some ''servomech_output'',
      params_given = [(''J'', PNum 100), (''b'', PNum 10), (''k'', PNum 1), (''r'', PNum 1),
                (''l'', PNum 2), (''eps'', PNum (1 / 100))],
      get_defaults = []\<rparr>"

definition kincar_call :: nlsys_call where
  "kincar_call =
     \<lparr>sysname = ''kincar'', updfcn = Some ''_kincar_update'',
      outfcn = Some ''_kincar_output'',
      params_given = [],
      get_defaults = [(''wheelbase'', PNum 3), (''dir'', PStr ''f'')]\<rparr>"

definition nlsys_calls :: "nlsys_call list" where
  "nlsys_calls = [invpend_call, propctrl_call, statefbk_call, servomech_call, kincar_call]"

text \<open>An argument that is a function, not \<open>None\<close> or absent.\<close>

fun supplied :: "string option \<Rightarrow> bool" where
  "supplied None = False"
| "supplied (Some f) = True"

fun is_number :: "param_value \<Rightarrow> bool" where
  "is_number (PNum a) = True"
| "is_number (PStr s) = False"
| "is_number (PArr xs) = False"

section \<open>Theorems\<close>

lemma and_then_Inr: "and_then (Inr v) f = f v"
  by (simp add: and_then_def)

lemma and_then_Inl: "and_then (Inl e) f = Inl e"
  by (simp add: and_then_def)

lemma index_Cons_0: "index (a # us) 0 = Inr a"
  by (simp add: index_def)

lemma servomech_params_lookup:
  "servomech_params ''J'' = Some 100" "servomech_params ''b'' = Some 10"
  "servomech_params ''k'' = Some 1" "servomech_params ''r'' = Some 1"
  by (simp_all add: servomech_params_def)

text \<open>
  C9. With the notebook parameters (J = 100, b = 10, k = 1, r = 1), for every time
  \<open>t\<close> and angle \<open>theta_e\<close> the torque \<open>u_e = k * r * sin theta_e\<close> is computed
  without error and makes \<open>[theta_e, 0]\<close> an equilibrium: \<open>servomech_update\<close>
  returns \<open>[0, 0]\<close>.
\<close>

theorem servomech_equilibrium:
  "u_e servomech_params theta_e = Inr (sin theta_e) \<and>
   and_then (u_e servomech_params theta_e)
     (\<lambda>ue. servomech_update t [theta_e, 0] [ue] servomech_params) = Inr [0, 0]"
  by (simp add: u_e_def servomech_update_def and_then_def getitem_def index_def
      need_num_def servomech_params_lookup)

subsection \<open>Input saturation of the inverted pendulum\<close>

lemma invpend_update_clip_cong:
  assumes "np_clip a (- dict_get params ''umax'' 1) (dict_get params ''umax'' 1) =
           np_clip c (- dict_get params ''umax'' 1) (dict_get params ''umax'' 1)"
  shows "invpend_update t x (a # us) params = invpend_update t x (c # vs) params"
proof -
  define G where "G = (\<lambda>usat.
     and_then (getitem params ''m'') (\<lambda>m.
     and_then (getitem params ''l'') (\<lambda>l.
     and_then (getitem params ''b'') (\<lambda>b.
     and_then (getitem params ''g'') (\<lambda>g.
     and_then (index x 1) (\<lambda>x1.
     if m = 0 then Inl ZeroDivisionError else
     and_then (index x 0) (\<lambda>x0.
     Inr [x1, - b / m * x1 + (g * l / m) * sin (x0 + usat / m)])))))))"
  have "invpend_update t x (u0 # ws) params =
        G (np_clip u0 (- dict_get params ''umax'' 1) (dict_get params ''umax'' 1))" for u0 ws
    unfolding G_def invpend_update_def Let_def index_Cons_0 and_then_Inr ..
  then show ?thesis using assms by simp
qed

lemma np_clip_sgn:
  "umax \<le> \<bar>a\<bar> \<Longrightarrow> np_clip (sgn a * umax) (- umax) umax = np_clip a (- umax) umax"
  by (auto simp: np_clip_def sgn_if min_def max_def)

lemma invpend_update_at_5:
  "invpend_update 0 [0, 0] [5] invpend_params = Inr [0, sin 1]"
  by (simp add: invpend_update_def invpend_params_def and_then_def getitem_def
      dict_get_def index_def np_clip_def)

text \<open>
  C10. For every \<open>t\<close>, \<open>x\<close> and parameter mapping, with
  \<open>umax = params.get('umax', 1)\<close>: two non-empty inputs whose first components
  clip to the same value of \<open>np.clip(., -umax, umax)\<close> give the same result of
  \<open>invpend_update\<close> (the same state derivative, or the same exception); in
  particular an input with \<open>|u[0]| \<ge> umax\<close> gives the same result as the input
  with \<open>u[0]\<close> replaced by \<open>sign(u[0]) * umax\<close>.
\<close>

theorem invpend_update_saturation:
  "(\<forall>u1 u2. u1 \<noteq> [] \<and> u2 \<noteq> [] \<and>
      np_clip (hd u1) (- dict_get params ''umax'' 1) (dict_get params ''umax'' 1) =
      np_clip (hd u2) (- dict_get params ''umax'' 1) (dict_get params ''umax'' 1) \<longrightarrow>
      invpend_update t x u1 params = invpend_update t x u2 params) \<and>
   (\<forall>u. u \<noteq> [] \<and> dict_get params ''umax'' 1 \<le> \<bar>hd u\<bar> \<longrightarrow>
      invpend_update t x u params =
      invpend_update t x ((sgn (hd u) * dict_get params ''umax'' 1) # tl u) params)"
proof (intro conjI allI impI, goal_cases)
  case (1 u1 u2)
  then have n1: "u1 \<noteq> []" and n2: "u2 \<noteq> []"
    and eq: "np_clip (hd u1) (- dict_get params ''umax'' 1) (dict_get params ''umax'' 1) =
      np_clip (hd u2) (- dict_get params ''umax'' 1) (dict_get params ''umax'' 1)"
    by blast+
  from n1 have e1: "u1 = hd u1 # tl u1" by simp
  from n2 have e2: "u2 = hd u2 # tl u2" by simp
  from invpend_update_clip_cong [OF eq, of t x "tl u1" "tl u2"]
  show ?case by (simp only: e1 [symmetric] e2 [symmetric])
next
  case (2 u)
  then have n: "u \<noteq> []" and le: "dict_get params ''umax'' 1 \<le> \<bar>hd u\<bar>"
    by blast+
  from n have e: "u = hd u # tl u" by simp
  from np_clip_sgn [OF le]
  have "np_clip (hd u) (- dict_get params ''umax'' 1) (dict_get params ''umax'' 1) =
        np_clip (sgn (hd u) * dict_get params ''umax'' 1)
          (- dict_get params ''umax'' 1) (dict_get params ''umax'' 1)"
    by (rule sym)
  from invpend_update_clip_cong [OF this, of t x "tl u" "tl u"]
  show ?case by (simp only: e [symmetric])
qed

theorem invpend_update_saturation_witness:
  "np_clip (hd [5]) (- dict_get invpend_params ''umax'' 1) (dict_get invpend_params ''umax'' 1) =
   np_clip (hd [1]) (- dict_get invpend_params ''umax'' 1) (dict_get invpend_params ''umax'' 1) \<and>
   dict_get invpend_params ''umax'' 1 \<le> \<bar>hd [5]\<bar> \<and>
   invpend_update 0 [0, 0] [5] invpend_params = invpend_update 0 [0, 0] [1] invpend_params \<and>
   invpend_update 0 [0, 0] [5] invpend_params =
     invpend_update 0 [0, 0] [sgn (hd [5]) * dict_get invpend_params ''umax'' 1] invpend_params \<and>
   invpend_update 0 [0, 0] [5] invpend_params = Inr [0, sin 1]"
proof -
  have um: "dict_get invpend_params ''umax'' 1 = (1::real)"
    by (simp add: dict_get_def invpend_params_def)
  have c: "np_clip (hd [5]) (- dict_get invpend_params ''umax'' 1)
             (dict_get invpend_params ''umax'' 1) =
           np_clip (hd [1]) (- dict_get invpend_params ''umax'' 1)
             (dict_get invpend_params ''umax'' 1)"
    by (simp add: um np_clip_def)
  have le: "dict_get invpend_params ''umax'' 1 \<le> \<bar>hd [5]\<bar>"
    by (simp add: um)
  note sat = invpend_update_saturation [of invpend_params 0 "[0, 0]"]
  have a: "invpend_update 0 [0, 0] [5] invpend_params =
           invpend_update 0 [0, 0] [1] invpend_params"
    by (rule sat [THEN conjunct1, rule_format, of "[5]" "[1]"]) (simp add: um np_clip_def)
  have "invpend_update 0 [0, 0] [5] invpend_params =
      invpend_update 0 [0, 0] ((sgn (hd [5]) * dict_get invpend_params ''umax'' 1) # tl [5])
        invpend_params"
    by (rule sat [THEN conjunct2, rule_format, of "[5]"]) (simp add: um)
  then have b: "invpend_update 0 [0, 0] [5] invpend_params =
     invpend_update 0 [0, 0] [sgn (hd [5]) * dict_get invpend_params ''umax'' 1] invpend_params"
    by (simp only: list.sel)
  from c le a b invpend_update_at_5 show ?thesis by (intro conjI)
qed

subsection \<open>Round trip of the flat maps of the kinematic car\<close>

lemma ratio_tan: "0 < (r::real) \<Longrightarrow> r * sin th / (r * cos th) = tan (th::real)"
  by (auto simp: tan_def)

lemma np_arctan2_right: "0 < x \<Longrightarrow> np_arctan2 y x = arctan (y / x)"
  by (simp add: np_arctan2_def)

lemma np_arctan2_upper_left: "x < 0 \<Longrightarrow> 0 \<le> y \<Longrightarrow> np_arctan2 y x = arctan (y / x) + pi"
  by (simp add: np_arctan2_def)

lemma np_arctan2_lower_left: "x < 0 \<Longrightarrow> y < 0 \<Longrightarrow> np_arctan2 y x = arctan (y / x) - pi"
  by (simp add: np_arctan2_def)

lemma np_arctan2_polar:
  fixes r th :: real
  assumes r: "0 < r" and lo: "- pi < th" and hi: "th \<le> pi"
  shows "np_arctan2 (r * sin th) (r * cos th) = th"
proof -
  note q = ratio_tan [OF r, of th]
  consider (mid) "- (pi / 2) < th" "th < pi / 2"
    | (top) "th = pi / 2" | (bot) "th = - (pi / 2)"
    | (left_up) "pi / 2 < th" | (left_down) "th < - (pi / 2)"
    by linarith
  then show ?thesis
  proof cases
    case mid
    then have "0 < cos th" by (rule cos_gt_zero_pi)
    with r have "0 < r * cos th" by simp
    from np_arctan2_right [OF this, of "r * sin th"] arctan_tan [OF mid]
    show ?thesis by (simp only: q)
  next
    case top
    have "np_arctan2 (r * sin (pi / 2)) (r * cos (pi / 2)) = pi / 2"
      using r by (simp add: np_arctan2_def)
    then show ?thesis by (simp only: top)
  next
    case bot
    have "np_arctan2 (r * sin (- (pi / 2))) (r * cos (- (pi / 2))) = - (pi / 2)"
      using r by (simp add: np_arctan2_def)
    then show ?thesis by (simp only: bot)
  next
    case left_up
    have c: "0 < cos (th - pi)" using left_up hi by (intro cos_gt_zero_pi) linarith+
    have "cos (th - pi) = - cos th" using cos_periodic_pi [of "th - pi"] by simp
    with c have cneg: "cos th < 0" by simp
    have "0 \<le> sin (pi - th)" using left_up hi by (intro sin_ge_zero) linarith+
    then have spos: "0 \<le> sin th" by simp
    have t: "tan th = tan (th - pi)" using tan_periodic_pi [of "th - pi"] by simp
    have "arctan (tan (th - pi)) = th - pi"
      using left_up hi by (intro arctan_tan) linarith+
    with t have a: "arctan (tan th) = th - pi" by simp
    from r cneg have x: "r * cos th < 0" by (simp add: mult_pos_neg)
    from r spos have y: "0 \<le> r * sin th" by simp
    from np_arctan2_upper_left [OF x y] a show ?thesis by (simp only: q)
  next
    case left_down
    have c: "0 < cos (th + pi)" using left_down lo by (intro cos_gt_zero_pi) linarith+
    then have cneg: "cos th < 0" by simp
    have "0 < sin (th + pi)" using left_down lo by (intro sin_gt_zero) linarith+
    then have sneg: "sin th < 0" by simp
    have "arctan (tan (th + pi)) = th + pi"
      using left_down lo by (intro arctan_tan) linarith+
    then have a: "arctan (tan th) = th + pi" by simp
    from r cneg have x: "r * cos th < 0" by (simp add: mult_pos_neg)
    from r sneg have y: "r * sin th < 0" by (simp add: mult_pos_neg)
    from np_arctan2_lower_left [OF x y] a show ?thesis by (simp only: q)
  qed
qed



lemma kincar_flat_forward_b3:
  assumes "dict_get params ''wheelbase'' (Num 3) = Num 3"
  shows "kincar_flat_forward exact_ops [x0, x1, x2] [u0, u1] params =
         Inr [[x0, u0 * cos x2, - u0 * (u0 / 3 * tan u1) * sin x2],
              [x1, u0 * sin x2, u0 * (u0 / 3 * tan u1) * cos x2]]"
  by (simp add: kincar_flat_forward_def exact_ops_def assms index_def and_then_Inr Let_def)

lemma kincar_flat_reverse_b3_f:
  assumes "dict_get params ''wheelbase'' (Num 3) = Num 3"
      and "dict_get params ''dir'' (Str ''f'') = Str ''f''"
  shows "kincar_flat_reverse exact_ops [[z00, z01, z02], [z10, z11, z12]] params =
         Inr ([z00, z10, np_arctan2 z11 z01],
              [z01 * cos (np_arctan2 z11 z01) + z11 * sin (np_arctan2 z11 z01),
               np_arctan2 (z12 * cos (np_arctan2 z11 z01) - z02 * sin (np_arctan2 z11 z01))
                 ((z01 * cos (np_arctan2 z11 z01) + z11 * sin (np_arctan2 z11 z01))\<^sup>2 / 3)])"
  by (simp add: kincar_flat_reverse_def exact_ops_def assms index2_def index_def and_then_def
      Let_def)

lemma np_arctan2_tan:
  fixes r d :: real
  assumes "0 < r" "- (pi / 2) < d" "d < pi / 2"
  shows "np_arctan2 (r * tan d) r = d"
  using assms by (simp add: np_arctan2_right arctan_tan)

lemma kincar_roundtrip_list:
  fixes x0 x1 x2 u0 u1 :: real
  assumes b: "dict_get params ''wheelbase'' (Num 3) = Num 3"
      and d: "dict_get params ''dir'' (Str ''f'') = Str ''f''"
      and u0: "0 < u0" and u1: "- (pi / 2) < u1" "u1 < pi / 2"
      and x2: "- pi < x2" "x2 \<le> pi"
  shows "and_then (kincar_flat_forward exact_ops [x0, x1, x2] [u0, u1] params)
           (\<lambda>z. kincar_flat_reverse exact_ops z params) = Inr ([x0, x1, x2], [u0, u1])"
proof -
  have th: "np_arctan2 (u0 * sin x2) (u0 * cos x2) = x2"
    using u0 x2 by (rule np_arctan2_polar)
  have sc: "sin x2 * sin x2 + cos x2 * cos x2 = 1"
    using sin_cos_squared_add [of x2] by (simp add: power2_eq_square)
  have v: "u0 * cos x2 * cos x2 + u0 * sin x2 * sin x2 = u0"
  proof -
    have "u0 * cos x2 * cos x2 + u0 * sin x2 * sin x2 =
          u0 * (sin x2 * sin x2 + cos x2 * cos x2)"
      by (simp only: distrib_left mult.assoc add.commute)
    then show ?thesis by (simp only: sc mult_1_right)
  qed
  have w: "u0 * (u0 / 3 * tan u1) * cos x2 * cos x2 - - u0 * (u0 / 3 * tan u1) * sin x2 * sin x2
           = u0\<^sup>2 / 3 * tan u1"
  proof -
    have "u0 * (u0 / 3 * tan u1) * cos x2 * cos x2 - - u0 * (u0 / 3 * tan u1) * sin x2 * sin x2
          = u0 * (u0 / 3 * tan u1) * cos x2 * cos x2 + u0 * (u0 / 3 * tan u1) * sin x2 * sin x2"
      by (simp only: minus_mult_left [symmetric] diff_minus_eq_add)
    also have "\<dots> = (u0 * (u0 / 3 * tan u1)) * (sin x2 * sin x2 + cos x2 * cos x2)"
      by (simp only: distrib_left mult.assoc add.commute)
    also have "\<dots> = u0 * (u0 / 3 * tan u1)"
      by (simp only: sc mult_1_right)
    also have "\<dots> = u0\<^sup>2 / 3 * tan u1"
      by (simp add: power2_eq_square)
    finally show ?thesis .
  qed
  have r: "0 < u0\<^sup>2 / 3" using u0 by simp
  have dl: "np_arctan2 (u0\<^sup>2 / 3 * tan u1) (u0\<^sup>2 / 3) = u1"
    using r u1 by (rule np_arctan2_tan)
  show ?thesis
    unfolding kincar_flat_forward_b3 [OF b] and_then_Inr kincar_flat_reverse_b3_f [OF b d]
      th v w dl ..
qed


text \<open>
  C8. In exact real arithmetic, under the default parameters (wheelbase 3, direction
  \<open>'f'\<close>, absent from the mapping or given explicitly), for every state \<open>x\<close>
  (three components) and input \<open>u\<close> (two components) with \<open>u[0] > 0\<close>,
  \<open>u[1]\<close> in \<open>(-pi/2, pi/2)\<close> and \<open>x[2]\<close> in \<open>(-pi, pi]\<close>, the forward
  flat map returns a flag on which the reverse flat map returns the pair \<open>(x, u)\<close>.
\<close>

theorem kincar_flat_roundtrip:
  assumes "dict_get params ''wheelbase'' (Num 3) = Num 3"
      and "dict_get params ''dir'' (Str ''f'') = Str ''f''"
      and "length x = 3" and "length u = 2"
      and "0 < u ! 0" and "- (pi / 2) < u ! 1" and "u ! 1 < pi / 2"
      and "- pi < x ! 2" and "x ! 2 \<le> pi"
  shows "and_then (kincar_flat_forward exact_ops x u params)
           (\<lambda>z. kincar_flat_reverse exact_ops z params) = Inr (x, u)"
proof -
  from \<open>length x = 3\<close> obtain x0 x1 x2 where x: "x = [x0, x1, x2]"
    by (auto simp: numeral_3_eq_3 length_Suc_conv)
  from \<open>length u = 2\<close> obtain u0 u1 where u: "u = [u0, u1]"
    by (auto simp: numeral_2_eq_2 length_Suc_conv)
  from assms(5-9) have "0 < u0" "- (pi / 2) < u1" "u1 < pi / 2" "- pi < x2" "x2 \<le> pi"
    by (simp_all add: x u)
  with assms(1,2) show ?thesis
    unfolding x u by (rule kincar_roundtrip_list)
qed

theorem kincar_flat_roundtrip_witness:
  "dict_get Map.empty ''wheelbase'' (Num 3) = Num 3 \<and>
   dict_get Map.empty ''dir'' (Str ''f'') = Str ''f'' \<and>
   length [1, 2, 0 :: real] = 3 \<and> length [1, 0 :: real] = 2 \<and>
   0 < [1, 0 :: real] ! 0 \<and> - (pi / 2) < [1, 0 :: real] ! 1 \<and> [1, 0 :: real] ! 1 < pi / 2 \<and>
   - pi < [1, 2, 0 :: real] ! 2 \<and> [1, 2, 0 :: real] ! 2 \<le> pi \<and>
   and_then (kincar_flat_forward exact_ops [1, 2, 0] [1, 0] Map.empty)
     (\<lambda>z. kincar_flat_reverse exact_ops z Map.empty) = Inr ([1, 2, 0], [1, 0])"
proof -
  have h: "dict_get Map.empty ''wheelbase'' (Num 3) = Num 3"
    "dict_get Map.empty ''dir'' (Str ''f'') = Str ''f''"
    "length [1, 2, 0 :: real] = 3" "length [1, 0 :: real] = 2"
    "0 < [1, 0 :: real] ! 0" "- (pi / 2) < [1, 0 :: real] ! 1" "[1, 0 :: real] ! 1 < pi / 2"
    "- pi < [1, 2, 0 :: real] ! 2" "[1, 2, 0 :: real] ! 2 \<le> pi"
    by (simp_all add: dict_get_def)
  from h kincar_flat_roundtrip [OF h] show ?thesis by (intro conjI)
qed

lemma flush_small: "\<bar>a\<bar> < 1 / 2 ^ 1075 \<Longrightarrow> flush a = 0"
  by (simp add: flush_def)

lemma flush_zero: "flush 0 = 0"
  by (simp add: flush_def)

lemma flush_big: "1 / 2 ^ 1075 \<le> \<bar>a\<bar> \<Longrightarrow> flush a = a"
  by (simp add: flush_def)

lemma tan_half_bounds: "0 \<le> tan (1 / 2 :: real)" "tan (1 / 2 :: real) \<le> 1"
proof -
  have p: "(1 / 2 :: real) \<le> pi / 4" using pi_ge_two by simp
  have q: "pi / 4 < pi / 2" using pi_gt_zero by simp
  show "0 \<le> tan (1 / 2 :: real)"
    using p q by (intro tan_pos_pi2_le) simp_all
  have "tan (1 / 2 :: real) \<le> tan (pi / 4)"
    using p q pi_gt_zero by (intro tan_mono_le) simp_all
  then show "tan (1 / 2 :: real) \<le> 1" by (simp add: tan_45)
qed

lemma slow_pos: "0 < slow"
  by (simp add: slow_def)

lemma slow_normal: "flush slow = slow" "flush (slow / 3) = slow / 3"
proof -
  have a: "(2::real) ^ 600 \<le> 2 ^ 1075" by (rule power_increasing) simp_all
  have b: "(3::real) * 2 ^ 600 \<le> 2 ^ 1075"
  proof -
    have "(3::real) * 2 ^ 600 \<le> 2 ^ 2 * 2 ^ 600" by simp
    also have "\<dots> = 2 ^ 602" by (simp only: power_add [symmetric]) simp
    also have "\<dots> \<le> 2 ^ 1075" by (rule power_increasing) simp_all
    finally show ?thesis .
  qed
  from a have "1 / 2 ^ 1075 \<le> \<bar>slow\<bar>" by (simp add: slow_def frac_le)
  then show "flush slow = slow" by (rule flush_big)
  from b have "1 / 2 ^ 1075 \<le> (1::real) / (3 * 2 ^ 600)" by (intro frac_le) simp_all
  then have "1 / 2 ^ 1075 \<le> \<bar>slow / 3\<bar>" by (simp add: slow_def)
  then show "flush (slow / 3) = slow / 3" by (rule flush_big)
qed

lemma slow_square_small: "slow * slow < 1 / 2 ^ 1075"
proof -
  have "slow * slow = 1 / 2 ^ 1200"
    by (simp add: slow_def power_add [symmetric])
  moreover have "(1::real) / 2 ^ 1200 < 1 / 2 ^ 1075"
    by (intro divide_strict_left_mono power_strict_increasing) simp_all
  ultimately show ?thesis by simp
qed

lemma slow_product_underflows:
  assumes "\<bar>t\<bar> \<le> slow"
  shows "flush (slow * t) = 0" "flush (- slow * t) = 0"
proof -
  have "\<bar>slow * t\<bar> = slow * \<bar>t\<bar>" using slow_pos by (simp add: abs_mult)
  also have "\<dots> \<le> slow * slow" using assms slow_pos by (intro mult_left_mono) simp_all
  also note slow_square_small
  finally have s: "\<bar>slow * t\<bar> < 1 / 2 ^ 1075" .
  then show "flush (slow * t) = 0" by (rule flush_small)
  from s have "\<bar>- slow * t\<bar> < 1 / 2 ^ 1075" by simp
  then show "flush (- slow * t) = 0" by (rule flush_small)
qed

lemma thdot_small:
  "\<bar>flush (slow / 3 * tan (1 / 2))\<bar> \<le> slow"
proof -
  have "\<bar>slow / 3 * tan (1 / 2)\<bar> = slow / 3 * tan (1 / 2)"
    using slow_pos tan_half_bounds(1) by simp
  also have "\<dots> \<le> slow / 3 * 1"
    using slow_pos tan_half_bounds(2) by (intro mult_left_mono) simp_all
  also have "\<dots> \<le> slow" using slow_pos by simp
  finally have "\<bar>slow / 3 * tan (1 / 2)\<bar> \<le> slow" .
  then show ?thesis using slow_pos by (simp add: flush_def)
qed

lemma kincar_flat_forward_underflow:
  "kincar_flat_forward underflow_ops [1, 2, 0] [slow, 1 / 2] Map.empty =
     Inr [[1, slow, 0], [2, 0, 0]]"
proof -
  let ?t = "flush (slow / 3 * tan (1 / 2))"
  have "kincar_flat_forward underflow_ops [1, 2, 0] [slow, 1 / 2] Map.empty =
        Inr [[1, flush slow, flush (flush (- slow * flush (flush (slow / 3) * tan (1 / 2))) * 0)],
             [2, flush 0, flush (flush (slow * flush (flush (slow / 3) * tan (1 / 2))) * 1)]]"
    by (simp add: kincar_flat_forward_def underflow_ops_def dict_get_def index_def
        and_then_Inr Let_def)
  also have "\<dots> = Inr [[1, slow, 0], [2, 0, 0]]"
    unfolding slow_normal slow_product_underflows [OF thdot_small]
    by (simp add: flush_zero)
  finally show ?thesis .
qed

lemma kincar_flat_reverse_underflow:
  "kincar_flat_reverse underflow_ops [[1, slow, 0], [2, 0, 0]] Map.empty =
     Inr ([1, 2, 0], [slow, 0])"
proof -
  have a: "np_arctan2 0 slow = 0" using slow_pos by (simp add: np_arctan2_def)
  have sq: "flush (slow\<^sup>2) = 0"
    using slow_square_small slow_pos by (intro flush_small) (simp add: power2_eq_square)
  have "kincar_flat_reverse underflow_ops [[1, slow, 0], [2, 0, 0]] Map.empty =
        Inr ([1, 2, np_arctan2 0 slow],
             [flush (slow * cos (np_arctan2 0 slow)) + flush (0 * sin (np_arctan2 0 slow)),
              np_arctan2 (flush (0 * cos (np_arctan2 0 slow)) - flush (0 * sin (np_arctan2 0 slow)))
                (flush (flush ((flush (slow * cos (np_arctan2 0 slow)) +
                                flush (0 * sin (np_arctan2 0 slow)))\<^sup>2) / 3))])"
    by (simp add: kincar_flat_reverse_def underflow_ops_def dict_get_def index2_def index_def
        and_then_def Let_def)
  also have "\<dots> = Inr ([1, 2, 0], [slow, 0])"
    unfolding a by (simp add: slow_normal flush_zero sq np_arctan2_def)
  finally show ?thesis .
qed

text \<open>
  C8, in float64 the round trip does not return the pair it started from. For the state
  \<open>[1, 2, 0]\<close> and the input \<open>[2^-600, 0.5]\<close>, which are float64 numbers within
  the ranges of the claim, the products \<open>u[0] * thdot\<close> of the forward map and the
  square \<open>u[0]**2\<close> of the reverse map underflow to zero, so that the reverse map
  computes the steering angle \<open>arctan2(0, 0) = 0\<close>, not \<open>0.5\<close>. Every other
  operation on the way is exact in float64 (\<open>cos 0 = 1\<close>, \<open>sin 0 = 0\<close>,
  products with 0 and 1, \<open>arctan2(0, 2^-600) = 0\<close>), except \<open>thdot\<close> itself, of
  which only the magnitude, at most \<open>2^-600 / 3\<close>, matters; and the two zeros that
  reach the last \<open>arctan2\<close> are positive zeros in float64
  (\<open>0.0 * 1.0 - (-0.0) * 0.0\<close> and \<open>0.0 / 3.0\<close>), for which it returns \<open>0.0\<close>.
\<close>

theorem kincar_flat_roundtrip_underflows:
  "0 < (1 / 2 ^ 600 :: real) \<and> - (pi / 2) < 1 / 2 \<and> 1 / 2 < pi / 2 \<and> - pi < 0 \<and> 0 \<le> pi \<and>
   and_then (kincar_flat_forward underflow_ops [1, 2, 0] [1 / 2 ^ 600, 1 / 2] Map.empty)
     (\<lambda>z. kincar_flat_reverse underflow_ops z Map.empty) = Inr ([1, 2, 0], [1 / 2 ^ 600, 0]) \<and>
   Inr ([1, 2, 0], [1 / 2 ^ 600, 0]) \<noteq>
     (Inr ([1, 2, 0], [1 / 2 ^ 600, 1 / 2]) :: exn + real list \<times> real list)"
proof -
  have a: "0 < (1 / 2 ^ 600 :: real)" by simp
  have b: "- (pi / 2) < (1 / 2 :: real)" using pi_gt_zero by linarith
  have c: "(1 / 2 :: real) < pi / 2" using pi_ge_two by linarith
  have d: "- pi < (0 :: real)" using pi_gt_zero by linarith
  have e: "(0 :: real) \<le> pi" using pi_gt_zero by linarith
  have f: "and_then
      (kincar_flat_forward underflow_ops [1, 2, 0] [1 / 2 ^ 600, 1 / 2] Map.empty)
      (\<lambda>z. kincar_flat_reverse underflow_ops z Map.empty) = Inr ([1, 2, 0], [1 / 2 ^ 600, 0])"
    using kincar_flat_forward_underflow kincar_flat_reverse_underflow
    by (simp add: and_then_Inr slow_def)
  have g: "Inr ([1, 2, 0], [1 / 2 ^ 600, 0]) \<noteq>
     (Inr ([1, 2, 0], [1 / 2 ^ 600, 1 / 2]) :: exn + real list \<times> real list)"
    by simp
  from a b c d e f g show ?thesis by (intro conjI)
qed

subsection \<open>Closed-loop poles of the inverted pendulum with proportional feedback\<close>

lemma clsys_update_kp10:
  "clsys_update t [th, w] [r] [''kp'' \<mapsto> 10] =
   Inr [w, - (1 / 2) * w + sin (th + np_clip (- 10 * (th - r)) (- 1) 1)]"
  by (simp add: clsys_update_def invpend_update_def propctrl_output_def clsys_params_def
      invpend_params_def dict_get_def getitem_def index_def and_then_def)

lemma np_clip_inside: "lo \<le> a \<Longrightarrow> a \<le> hi \<Longrightarrow> np_clip a lo hi = a"
  by (simp add: np_clip_def)

lemma clsys_jacobian_00: "DERIV (\<lambda>s. component (clsys_update t [s, 0] [0] [''kp'' \<mapsto> 10]) 0) 0 :> 0"
  by (simp add: clsys_update_kp10 component_def)

lemma clsys_jacobian_01: "DERIV (\<lambda>s. component (clsys_update t [0, s] [0] [''kp'' \<mapsto> 10]) 0) 0 :> 1"
  by (simp add: clsys_update_kp10 component_def)

lemma clsys_jacobian_11: "DERIV (\<lambda>s. component (clsys_update t [0, s] [0] [''kp'' \<mapsto> 10]) 1) 0 :> - (1 / 2)"
proof -
  have "DERIV (\<lambda>s::real. - (1 / 2) * s) 0 :> - (1 / 2)"
    by (auto intro!: derivative_eq_intros)
  then show ?thesis
    by (simp add: clsys_update_kp10 component_def np_clip_def)
qed

lemma clsys_jacobian_10: "DERIV (\<lambda>s. component (clsys_update t [s, 0] [0] [''kp'' \<mapsto> 10]) 1) 0 :> - 9"
proof -
  have lin: "DERIV (\<lambda>s::real. sin (s + - 10 * s)) 0 :> - 9"
    by (auto intro!: derivative_eq_intros)
  have loc: "sin (s + - 10 * s) =
             component (clsys_update t [s, 0] [0] [''kp'' \<mapsto> 10]) 1"
    if "s \<in> UNIV" "dist s 0 < 1 / 10" for s :: real
  proof -
    from that have "\<bar>s\<bar> < 1 / 10" by simp
    then have "np_clip (- 10 * s) (- 1) 1 = - 10 * s"
      by (intro np_clip_inside) linarith+
    then show ?thesis by (simp add: clsys_update_kp10 component_def)
  qed
  show ?thesis
    by (rule has_field_derivative_transform_within [where d = "1 / 10", OF lin _ _ loc])
      simp_all
qed

lemma clsys_pole_real_part:
  fixes z :: complex
  assumes "is_pole clsys_A_kp10 z"
  shows "Re z < 0"
proof -
  from assms have eq: "z * (z + 1 / 2) + 9 = 0"
    by (simp add: is_pole_def char_poly2_def clsys_A_kp10_def algebra_simps)
  define a where "a = Re z"
  define b where "b = Im z"
  have z: "z = Complex a b" by (simp add: a_def b_def)
  from eq have re: "a * (a + 1 / 2) - b * b + 9 = 0" and im: "a * b + b * (a + 1 / 2) = 0"
    by (simp_all add: z complex_eq_iff algebra_simps)
  show ?thesis
  proof (cases "b = 0")
    case True
    with re have "a * (a + 1 / 2) + 9 = 0" by simp
    moreover have "a * (a + 1 / 2) + 9 = (a + 1 / 4)\<^sup>2 + 143 / 16"
      by (simp add: power2_eq_square algebra_simps)
    moreover have "0 \<le> (a + 1 / 4)\<^sup>2" by simp
    ultimately have False by linarith
    then show ?thesis ..
  next
    case False
    from im have "b * (2 * a + 1 / 2) = 0" by (simp add: algebra_simps)
    with False have "2 * a + 1 / 2 = 0" by simp
    then show ?thesis unfolding a_def by linarith
  qed
qed

lemma clsys_pole_value:
  "is_pole clsys_A_kp10 (Complex (- (1 / 4)) (sqrt 143 / 4))"
proof -
  have s: "sqrt 143 * sqrt 143 = 143" by simp
  have "(sqrt 143 / 4) * (sqrt 143 / 4) = 143 / 16"
    using s by (simp add: field_simps)
  then show ?thesis
    by (simp add: is_pole_def char_poly2_def clsys_A_kp10_def complex_eq_iff algebra_simps)
qed

text \<open>
  C3. The closed loop of \<open>invpend\<close> (m = 1, l = 1, b = 0.5, g = 1, umax = 1) with
  the proportional controller \<open>u = -kp * (theta - r)\<close>, at gain \<open>kp = 10\<close>:
  the state \<open>[0, 0]\<close> with input \<open>[0]\<close> is an equilibrium, the Jacobian of
  the right-hand side with respect to the state there is
  \<open>[[0, 1], [-9, -1/2]]\<close>, and every pole of the linearization (every complex
  eigenvalue of that matrix) has strictly negative real part.
\<close>

theorem clsys_kp10_poles_stable:
  "clsys_update t [0, 0] [0] [''kp'' \<mapsto> 10] = Inr [0, 0] \<and>
   DERIV (\<lambda>s. component (clsys_update t [s, 0] [0] [''kp'' \<mapsto> 10]) 0) 0
     :> clsys_A_kp10 ! 0 ! 0 \<and>
   DERIV (\<lambda>s. component (clsys_update t [0, s] [0] [''kp'' \<mapsto> 10]) 0) 0
     :> clsys_A_kp10 ! 0 ! 1 \<and>
   DERIV (\<lambda>s. component (clsys_update t [s, 0] [0] [''kp'' \<mapsto> 10]) 1) 0
     :> clsys_A_kp10 ! 1 ! 0 \<and>
   DERIV (\<lambda>s. component (clsys_update t [0, s] [0] [''kp'' \<mapsto> 10]) 1) 0
     :> clsys_A_kp10 ! 1 ! 1 \<and>
   (\<forall>z. is_pole clsys_A_kp10 z \<longrightarrow> Re z < 0)"
proof -
  have eq: "clsys_update t [0, 0] [0] [''kp'' \<mapsto> 10] = Inr [0, 0]"
    by (simp add: clsys_update_kp10 np_clip_def)
  have A: "clsys_A_kp10 ! 0 ! 0 = 0" "clsys_A_kp10 ! 0 ! 1 = 1"
    "clsys_A_kp10 ! 1 ! 0 = - 9" "clsys_A_kp10 ! 1 ! 1 = - (1 / 2)"
    by (simp_all add: clsys_A_kp10_def)
  have p: "\<forall>z. is_pole clsys_A_kp10 z \<longrightarrow> Re z < 0"
    using clsys_pole_real_part by blast
  from eq clsys_jacobian_00 [of t] clsys_jacobian_01 [of t] clsys_jacobian_10 [of t]
    clsys_jacobian_11 [of t] p
  show ?thesis unfolding A by (intro conjI)
qed

theorem clsys_kp10_poles_stable_witness:
  "is_pole clsys_A_kp10 (Complex (- (1 / 4)) (sqrt 143 / 4)) \<and>
   Re (Complex (- (1 / 4)) (sqrt 143 / 4)) < 0"
proof -
  from clsys_kp10_poles_stable [of 0]
  have "is_pole clsys_A_kp10 (Complex (- (1 / 4)) (sqrt 143 / 4)) \<longrightarrow>
        Re (Complex (- (1 / 4)) (sqrt 143 / 4)) < 0"
    by (elim conjE allE)
  with clsys_pole_value show ?thesis by blast
qed

subsection \<open>Reordering of the Riccati solution in time\<close>

lemma concat_uniform_length:
  "list_all (\<lambda>row. length row = N) a \<Longrightarrow> length (concat a) = length a * N"
  by (induction a) simp_all

lemma concat_uniform_chunk:
  "list_all (\<lambda>row. length row = N) a \<Longrightarrow> r < length a \<Longrightarrow>
   take N (drop (r * N) (concat a)) = a ! r"
proof (induction a arbitrary: r)
  case Nil
  then show ?case by simp
next
  case (Cons row a)
  show ?case
  proof (cases r)
    case 0
    with Cons.prems show ?thesis by simp
  next
    case (Suc k)
    with Cons.prems have k: "k < length a" and all: "list_all (\<lambda>row. length row = N) a"
      and len: "length row = N" by simp_all
    have "drop (Suc k * N) (row @ concat a) = drop (k * N) (concat a)"
      using len by simp
    with Cons.IH [OF all k] Suc show ?thesis by simp
  qed
qed

lemma concat_uniform_nth:
  assumes "list_all (\<lambda>row. length row = N) a" "i < length a" "j < N"
  shows "concat a ! (i * N + j) = a ! i ! j"
proof -
  have "i * N + j < length a * N"
  proof -
    have "i * N + j < i * N + N" using assms(3) by simp
    also have "\<dots> = Suc i * N" by simp
    also have "\<dots> \<le> length a * N" using assms(2) by (intro mult_le_mono1) simp
    finally show ?thesis .
  qed
  then have "i * N + j < length (concat a)"
    by (simp add: concat_uniform_length [OF assms(1)])
  then have "take N (drop (i * N) (concat a)) ! j = concat a ! (i * N + j)"
    using assms(3) by simp
  with concat_uniform_chunk [OF assms(1,2)] show ?thesis by simp
qed

lemma np_reshape3_rows:
  assumes n: "0 < n" and len: "length a = n * n"
      and rows: "list_all (\<lambda>row. length row = N) a"
  shows "np_reshape3 n a = Inr (map (\<lambda>i. map (\<lambda>j. a ! (i * n + j)) [0..<n]) [0..<n])"
proof -
  have l: "length (concat a) = n * n * N"
    using concat_uniform_length [OF rows] len by simp
  from n have m: "n * n \<noteq> 0" by simp
  from l m have d: "length (concat a) div (n * n) = N" and md: "length (concat a) mod (n * n) = 0"
    by simp_all
  have idx: "i * n + j < length a" if "i < n" "j < n" for i j
  proof -
    have "i * n + j < i * n + n" using that by simp
    also have "\<dots> = Suc i * n" by simp
    also have "\<dots> \<le> n * n" using that by (intro mult_le_mono1) simp
    finally show ?thesis by (simp add: len)
  qed
  have "map (\<lambda>i. map (\<lambda>j. take N (drop ((i * n + j) * N) (concat a))) [0..<n]) [0..<n] =
        map (\<lambda>i. map (\<lambda>j. a ! (i * n + j)) [0..<n]) [0..<n]"
    by (intro map_cong refl) (simp add: concat_uniform_chunk [OF rows] idx)
  then show ?thesis
    using m d md by (simp add: np_reshape3_def Let_def)
qed

lemma square_unflatten:
  assumes "square n Pf"
  shows "map (\<lambda>i. map (\<lambda>j. concat Pf ! (i * n + j)) [0..<n]) [0..<n] = Pf"
proof -
  from assms have len: "length Pf = n" and rows: "list_all (\<lambda>row. length row = n) Pf"
    by (simp_all add: square_def)
  have row: "map (\<lambda>j. concat Pf ! (i * n + j)) [0..<n] = Pf ! i" if "i < n" for i
  proof -
    from that rows len have li: "length (Pf ! i) = n"
      by (simp add: list_all_length)
    have "map (\<lambda>j. concat Pf ! (i * n + j)) [0..<n] = map (\<lambda>j. Pf ! i ! j) [0..<n]"
      using that len by (intro map_cong refl) (simp add: concat_uniform_nth [OF rows])
    also have "\<dots> = Pf ! i" using map_nth [of "Pf ! i"] li by simp
    finally show ?thesis .
  qed
  have "map (\<lambda>i. map (\<lambda>j. concat Pf ! (i * n + j)) [0..<n]) [0..<n] = map (\<lambda>i. Pf ! i) [0..<n]"
    by (intro map_cong refl) (simp add: row)
  also have "\<dots> = Pf" using map_nth [of Pf] len by simp
  finally show ?thesis .
qed


lemma trev_sorted:
  fixes ts :: "real list"
  assumes "sorted ts"
  shows "sorted (map (\<lambda>s. Tf - s) (rev ts))"
  using assms by (simp add: sorted_map sorted_wrt_rev)

lemma trev_ends:
  fixes ts :: "real list"
  assumes "ts \<noteq> []" "hd ts = 0" "last ts = Tf"
  shows "hd (map (\<lambda>s. Tf - s) (rev ts)) = 0" "last (map (\<lambda>s. Tf - s) (rev ts)) = Tf"
  using assms by (simp_all add: hd_map last_map hd_rev last_rev)

lemma riccati_reorder_value:
  assumes n: "0 < n" and len: "length (sol_y Psol) = n * n"
      and rows: "list_all (\<lambda>row. length row = N) (sol_y Psol)"
  shows "riccati_reorder n Tf Psol =
         Inr (map (\<lambda>s. Tf - s) (rev (sol_t Psol)),
              map (\<lambda>i. map (\<lambda>j. rev (sol_y Psol ! (i * n + j))) [0..<n]) [0..<n])"
  by (simp add: riccati_reorder_def np_reshape3_rows [OF n len rows] and_then_Inr
      comp_def)

lemma slice_last_reversed:
  assumes n: "0 < n" and sq: "square n Pf" and N: "0 < N"
      and len: "length ys = n * n"
      and rows: "list_all (\<lambda>row. length row = N) ys"
      and first: "map hd ys = concat Pf"
  shows "slice_last (map (\<lambda>i. map (\<lambda>j. rev (ys ! (i * n + j))) [0..<n]) [0..<n]) = Inr Pf"
proof -
  have idx: "i * n + j < length ys" if "i < n" "j < n" for i j
  proof -
    have "i * n + j < i * n + n" using that by simp
    also have "\<dots> = Suc i * n" by simp
    also have "\<dots> \<le> n * n" using that by (intro mult_le_mono1) simp
    finally show ?thesis by (simp add: len)
  qed
  have ne: "ys ! (i * n + j) \<noteq> []" if "i < n" "j < n" for i j
  proof -
    from rows idx [OF that] have "length (ys ! (i * n + j)) = N"
      by (simp add: list_all_length)
    with N show ?thesis by auto
  qed
  have no_empty: "\<not> list_ex (list_ex (\<lambda>v. v = []))
      (map (\<lambda>i. map (\<lambda>j. rev (ys ! (i * n + j))) [0..<n]) [0..<n])"
    using ne by (auto simp: list_ex_iff)
  have "map (map last) (map (\<lambda>i. map (\<lambda>j. rev (ys ! (i * n + j))) [0..<n]) [0..<n]) =
        map (\<lambda>i. map (\<lambda>j. hd (ys ! (i * n + j))) [0..<n]) [0..<n]"
    by (simp add: comp_def last_rev)
  also have "\<dots> = map (\<lambda>i. map (\<lambda>j. map hd ys ! (i * n + j)) [0..<n]) [0..<n]"
    by (intro map_cong refl) (simp add: idx)
  also have "\<dots> = Pf"
    unfolding first by (rule square_unflatten [OF sq])
  finally show ?thesis using no_empty by (simp add: slice_last_def)
qed

lemma rev_indexed: "rev xs = map (\<lambda>k. xs ! (length xs - Suc k)) [0..<length xs]"
  by (rule nth_equalityI) (simp_all add: rev_nth)

lemma trev_indexed:
  "map (\<lambda>s. Tf - s) (rev ts) = map (\<lambda>k. Tf - ts ! (length ts - Suc k)) [0..<length ts]"
  for ts :: "real list"
  by (rule nth_equalityI) (simp_all add: rev_nth)

lemma flat_index_bound:
  assumes "i < n" "j < n"
  shows "i * n + j < n * (n::nat)"
proof -
  have "i * n + j < i * n + n" using assms(2) by simp
  also have "\<dots> = Suc i * n" by simp
  also have "\<dots> \<le> n * n" using assms(1) by (intro mult_le_mono1) simp
  finally show ?thesis .
qed

lemma Prev_indexed:
  assumes len: "length (Y :: real list list) = n * n"
      and rows: "list_all (\<lambda>row. length row = N) Y"
  shows "map (\<lambda>i. map (\<lambda>j. rev (Y ! (i * n + j))) [0..<n]) [0..<n] =
         map (\<lambda>i. map (\<lambda>j. map (\<lambda>k. Y ! (i * n + j) ! (N - Suc k)) [0..<N]) [0..<n]) [0..<n]"
proof (rule map_cong [OF refl], rule map_cong [OF refl])
  fix i j assume "i \<in> set [0..<n]" "j \<in> set [0..<n]"
  then have "i * n + j < length Y" using flat_index_bound [of i n j] len by simp
  with rows have "length (Y ! (i * n + j)) = N" by (simp add: list_all_length)
  with rev_indexed [of "Y ! (i * n + j)"]
  show "rev (Y ! (i * n + j)) = map (\<lambda>k. Y ! (i * n + j) ! (N - Suc k)) [0..<N]" by simp
qed

text \<open>
  C4. When the solver has integrated the Riccati equation from the flattened terminal
  cost over \<open>(0, Tf)\<close> (backward time), the reordering
  \<open>Prev = Pfwd[:, :, ::-1]\<close>, \<open>trev = Tf - Psol.t[::-1]\<close> succeeds and gives a
  time index \<open>trev\<close> with one entry per solver time point, nondecreasing, starting
  at 0 and ending at \<open>Tf\<close>; the entry of \<open>Prev\<close> at the final time,
  \<open>Prev[:,:,-1]\<close>, is the terminal cost \<open>Pf\<close>; the interpolant is built
  from exactly \<open>trev\<close> and \<open>Prev\<close>; and the two are paired sample by
  sample: with \<open>N\<close> solver time points, \<open>trev[k] = Tf - Psol.t[N-1-k]\<close> and
  \<open>Prev[i][j][k] = Psol.y[i*n+j][N-1-k]\<close>, the value the solver computed at its own
  time \<open>Psol.t[N-1-k]\<close>, for every \<open>k < N\<close>.
\<close>

theorem riccati_trajectory_reordered:
  assumes n: "0 < n" and sq: "square n Pf"
      and sol: "solve_ivp_result Tf (riccati_P0 Pf) Psol"
  shows "\<exists>trev Prev.
           riccati_reorder n Tf Psol = Inr (trev, Prev) \<and>
           length trev = length (sol_t Psol) \<and>
           sorted trev \<and> hd trev = 0 \<and> last trev = Tf \<and>
           slice_last Prev = Inr Pf \<and>
           riccati_interp interp1d n Tf Psol = Inr (interp1d trev Prev) \<and>
           trev = map (\<lambda>k. Tf - sol_t Psol ! (length (sol_t Psol) - Suc k))
                    [0..<length (sol_t Psol)] \<and>
           Prev = map (\<lambda>i. map (\<lambda>j. map (\<lambda>k. sol_y Psol ! (i * n + j) !
                                             (length (sol_t Psol) - Suc k))
                                     [0..<length (sol_t Psol)]) [0..<n]) [0..<n]"
proof -
  from sq have "length Pf = n" "list_all (\<lambda>row. length row = n) Pf"
    by (simp_all add: square_def)
  with concat_uniform_length [of n Pf] have lp: "length (concat Pf) = n * n"
    by simp
  from sol have ne: "sol_t Psol \<noteq> []" and h: "hd (sol_t Psol) = 0"
    and l: "last (sol_t Psol) = Tf" and s: "sorted (sol_t Psol)"
    and len: "length (sol_y Psol) = n * n"
    and rows: "list_all (\<lambda>row. length row = length (sol_t Psol)) (sol_y Psol)"
    and first: "map hd (sol_y Psol) = concat Pf"
    by (simp_all add: solve_ivp_result_def riccati_P0_def lp)
  from ne have N: "0 < length (sol_t Psol)" by simp
  let ?trev = "map (\<lambda>s. Tf - s) (rev (sol_t Psol))"
  let ?Prev = "map (\<lambda>i. map (\<lambda>j. rev (sol_y Psol ! (i * n + j))) [0..<n]) [0..<n]"
  have r: "riccati_reorder n Tf Psol = Inr (?trev, ?Prev)"
    by (rule riccati_reorder_value [OF n len rows])
  have i: "riccati_interp interp1d n Tf Psol = Inr (interp1d ?trev ?Prev)"
    by (simp add: riccati_interp_def r and_then_Inr)
  have sl: "slice_last ?Prev = Inr Pf"
    by (rule slice_last_reversed [OF n sq N len rows first])
  have lt: "length ?trev = length (sol_t Psol)" by simp
  note te = trev_indexed [of Tf "sol_t Psol"]
  note pe = Prev_indexed [OF len rows]
  show ?thesis
    apply (rule exI [where x = ?trev])
    apply (rule exI [where x = ?Prev])
    apply (intro conjI)
            apply (rule r)
           apply (rule lt)
          apply (rule trev_sorted [OF s])
         apply (rule trev_ends(1) [OF ne h l])
        apply (rule trev_ends(2) [OF ne h l])
       apply (rule sl)
      apply (rule i)
     apply (rule te)
    apply (rule pe)
    done
qed

theorem riccati_trajectory_reordered_witness:
  "0 < (3::nat) \<and> square 3 Pf_lq \<and>
   solve_ivp_result Tf_lq (riccati_P0 Pf_lq)
     \<lparr>sol_t = [0, 1, 4],
      sol_y = [[1, 2, 3], [0, 4, 5], [0, 0, 0], [0, 4, 5], [1, 6, 7], [0, 0, 0],
               [0, 0, 0], [0, 0, 0], [1, 8, 9]]\<rparr> \<and>
   riccati_reorder 3 Tf_lq
     \<lparr>sol_t = [0, 1, 4],
      sol_y = [[1, 2, 3], [0, 4, 5], [0, 0, 0], [0, 4, 5], [1, 6, 7], [0, 0, 0],
               [0, 0, 0], [0, 0, 0], [1, 8, 9]]\<rparr>
     = Inr ([0, 3, 4],
            [[[3, 2, 1], [5, 4, 0], [0, 0, 0]],
             [[5, 4, 0], [7, 6, 1], [0, 0, 0]],
             [[0, 0, 0], [0, 0, 0], [9, 8, 1]]]) \<and>
   slice_last [[[3, 2, 1], [5, 4, 0], [0, 0, 0]],
               [[5, 4, 0], [7, 6, 1], [0, 0, 0]],
               [[0, 0, 0], [0, 0, 0], [9, 8, 1]]] = Inr Pf_lq \<and>
   riccati_interp Pair 3 Tf_lq
     \<lparr>sol_t = [0, 1, 4],
      sol_y = [[1, 2, 3], [0, 4, 5], [0, 0, 0], [0, 4, 5], [1, 6, 7], [0, 0, 0],
               [0, 0, 0], [0, 0, 0], [1, 8, 9]]\<rparr>
     = Inr ([0, 3, 4],
            [[[3, 2, 1], [5, 4, 0], [0, 0, 0]],
             [[5, 4, 0], [7, 6, 1], [0, 0, 0]],
             [[0, 0, 0], [0, 0, 0], [9, 8, 1]]])"
proof -
  let ?sol = "\<lparr>sol_t = [0, 1, 4],
      sol_y = [[1, 2, 3], [0, 4, 5], [0, 0, 0], [0, 4, 5], [1, 6, 7], [0, 0, 0],
               [0, 0, 0], [0, 0, 0], [1, 8, 9]]\<rparr>"
  have n: "0 < (3::nat)" by simp
  have sq: "square 3 Pf_lq" by (simp add: square_def Pf_lq_def)
  have sol: "solve_ivp_result Tf_lq (riccati_P0 Pf_lq) ?sol"
    by (simp add: solve_ivp_result_def riccati_P0_def Pf_lq_def Tf_lq_def)
  have u3: "[0..<3] = [0, 1, 2]" by (simp add: upt_rec)
  from riccati_trajectory_reordered [OF n sq sol, of Pair]
  obtain trev Prev where
    r: "riccati_reorder 3 Tf_lq ?sol = Inr (trev, Prev)"
    and sl: "slice_last Prev = Inr Pf_lq"
    and i: "riccati_interp Pair 3 Tf_lq ?sol = Inr (trev, Prev)"
    and te: "trev = map (\<lambda>k. Tf_lq - sol_t ?sol ! (length (sol_t ?sol) - Suc k))
                    [0..<length (sol_t ?sol)]"
    and pe: "Prev = map (\<lambda>i. map (\<lambda>j. map (\<lambda>k. sol_y ?sol ! (i * 3 + j) !
                                             (length (sol_t ?sol) - Suc k))
                                     [0..<length (sol_t ?sol)]) [0..<3]) [0..<3]"
    by blast
  from te have te': "trev = [0, 3, 4]" by (simp add: u3 Tf_lq_def)
  from pe have pe': "Prev = [[[3, 2, 1], [5, 4, 0], [0, 0, 0]],
             [[5, 4, 0], [7, 6, 1], [0, 0, 0]],
             [[0, 0, 0], [0, 0, 0], [9, 8, 1]]]" by (simp add: u3)
  from r sl i n sq sol show ?thesis unfolding te' pe' by (intro conjI)
qed

subsection \<open>Exceptions raised and handled by notebook code\<close>

lemma and_then_ValueError:
  "and_then r f = Inl (ValueError m d) \<longleftrightarrow>
     r = Inl (ValueError m d) \<or> (\<exists>v. r = Inr v \<and> f v = Inl (ValueError m d))"
  by (cases r) (simp_all add: and_then_def)

lemma index_not_ValueError: "index xs i \<noteq> Inl (ValueError m d)"
  by (simp add: index_def)

lemma index2_not_ValueError: "index2 z i j \<noteq> Inl (ValueError m d)"
  by (simp add: index2_def and_then_ValueError index_not_ValueError)

lemma index2_Inr_iff: "(\<exists>v. index2 z i j = Inr v) \<longleftrightarrow> i < length z \<and> j < length (z ! i)"
  by (simp add: index2_def index_def and_then_def)

lemma kincar_flat_reverse_ValueError:
  "kincar_flat_reverse ops zflag params = Inl (ValueError m d) \<longleftrightarrow>
     (\<exists>v. index2 zflag 0 0 = Inr v) \<and> (\<exists>v. index2 zflag 1 0 = Inr v) \<and>
     m = ''unknown direction:'' \<and> d = dict_get params ''dir'' (Str ''f'') \<and>
     d \<noteq> Str ''f'' \<and> d \<noteq> Str ''r''"
proof -
  have tail: "(case b of Str s \<Rightarrow> Inl TypeError | Num bv \<Rightarrow> Inr (g bv)) \<noteq> Inl (ValueError m d)"
    for b :: pyval and g :: "real \<Rightarrow> 'a list \<times> 'a list"
    by (cases b) simp_all
  show ?thesis
    unfolding kincar_flat_reverse_def Let_def
    by (simp add: and_then_ValueError index2_not_ValueError tail) blast
qed


lemma index2_in_range:
  "i < length z \<Longrightarrow> j < length (z ! i) \<Longrightarrow> index2 z i j = Inr (z ! i ! j)"
  by (simp add: index2_def index_def and_then_def)

lemma kincar_flat_reverse_returns:
  assumes d: "dict_get params ''dir'' (Str ''f'') = Str ''f'' \<or>
              dict_get params ''dir'' (Str ''f'') = Str ''r''"
      and b: "dict_get params ''wheelbase'' (Num 3) = Num bv"
      and z: "1 < length zflag" "2 < length (zflag ! 0)" "2 < length (zflag ! 1)"
  shows "\<exists>x u. kincar_flat_reverse ops zflag params = Inr (x, u)"
proof -
  from z have r: "0 < length zflag" "1 < length zflag"
    and c0: "0 < length (zflag ! 0)" "1 < length (zflag ! 0)" "2 < length (zflag ! 0)"
    and c1: "0 < length (zflag ! 1)" "1 < length (zflag ! 1)" "2 < length (zflag ! 1)"
    by linarith+
  note i = index2_in_range [OF r(1) c0(1)] index2_in_range [OF r(1) c0(2)]
    index2_in_range [OF r(1) c0(3)] index2_in_range [OF r(2) c1(1)]
    index2_in_range [OF r(2) c1(2)] index2_in_range [OF r(2) c1(3)]
  from d show ?thesis
    unfolding kincar_flat_reverse_def Let_def i b and_then_Inr
    by (auto simp: and_then_Inr)
qed

lemma import_try_handles:
  assumes "import_fails env ''control'' tr = Some e" "catches ''ImportError'' e"
  shows "exec env import_try tr =
         exec_list env [Shell ''pip install control'', Import ''control'']
           (tr @ [Imports ''control''])"
  using assms by (simp add: import_try_def split: option.splits)


lemma functions_all:
  "map fst (defined_functions (concat notebooks)) =
     [''invpend_update'', ''propctrl_output'', ''statefbk_output'',
      ''servomech_update'', ''servomech_output'',
      ''_kincar_flat_forward'', ''_kincar_flat_reverse'', ''_kincar_update'',
      ''_kincar_output'', ''plot_lanechange'', ''Pdot_reverse'', ''xdot_forward'',
      ''r'', ''dryden_corrfcn'', ''dryden_psd'']"
  by code_simp

lemma raises_all: "filter is_raise (statements (concat notebooks)) = [Raise ''ValueError'']"
  by code_simp

lemma raising_functions: "functions_containing is_raise (concat notebooks) = [''_kincar_flat_reverse'']"
  by code_simp

lemma tries_all:
  "map (\<lambda>nb. filter is_try (statements nb)) notebooks =
     [[import_try], [], [import_try], [], []]"
  by code_simp

lemma tries_cells:
  "filter is_try (hd invpend_notebook) = [import_try]"
  "filter is_try (hd freq_notebook) = [import_try]"
  by code_simp+

lemma branching_functions:
  "functions_containing is_branch (concat notebooks) = [''_kincar_flat_reverse'', ''plot_lanechange'']"
  by code_simp

lemma branches_count:
  "length (filter is_branch (statements (concat notebooks))) = 3"
  "map (\<lambda>nb. length (filter is_loop (statements nb))) notebooks = [3, 0, 0, 1, 1]"
  by code_simp+

text \<open>
  C2. Notebook code raises an exception of its own in one place and handles
  exceptions in two.

    \<^item> \<open>_kincar_flat_reverse\<close>, in any arithmetic and on any flag, ends with
      \<open>ValueError("unknown direction:", dir)\<close> exactly when \<open>zflag[0][0]\<close> and
      \<open>zflag[1][0]\<close> exist and the \<open>dir\<close> parameter is neither \<open>'f'\<close> nor
      \<open>'r'\<close>; it returns a state and an input when \<open>dir\<close> is \<open>'f'\<close> or
      \<open>'r'\<close>, the wheelbase is a number and the flag has two rows of three entries
      (or more).
    \<^item> The \<open>try\<close> statement of the import cells handles the failure of
      \<open>import control\<close>: when the import raises \<open>ImportError\<close> or a subclass, the
      statement does not raise it but continues with \<open>!pip install control\<close> and a
      second \<open>import control\<close>.
    \<^item> The notebooks define fifteen functions. The only \<open>raise\<close> statement of the
      five notebooks is the \<open>ValueError\<close> of \<open>_kincar_flat_reverse\<close>; the only
      \<open>try\<close> statements are those of the first cells of the inverted pendulum and
      of the frequency-domain notebook.
    \<^item> There is branching: three \<open>if\<close> statements, all in the bodies of
      \<open>_kincar_flat_reverse\<close> (\<open>if\<close> and \<open>elif\<close>) and \<open>plot_lanechange\<close>,
      and five \<open>for\<close> loops (three in the inverted pendulum notebook, one in the
      linear-quadratic and one in the stochastic notebook). The two list comprehensions
      of the stochastic notebook are expressions and are not counted.
\<close>

theorem notebook_error_handling:
  "(kincar_flat_reverse ops zflag params = Inl (ValueError m d) \<longleftrightarrow>
      (\<exists>v. index2 zflag 0 0 = Inr v) \<and> (\<exists>v. index2 zflag 1 0 = Inr v) \<and>
      m = ''unknown direction:'' \<and> d = dict_get params ''dir'' (Str ''f'') \<and>
      d \<noteq> Str ''f'' \<and> d \<noteq> Str ''r'') \<and>
   ((dict_get params ''dir'' (Str ''f'') = Str ''f'' \<or>
     dict_get params ''dir'' (Str ''f'') = Str ''r'') \<and>
    dict_get params ''wheelbase'' (Num 3) = Num bv \<and>
    1 < length zflag \<and> 2 < length (zflag ! 0) \<and> 2 < length (zflag ! 1) \<longrightarrow>
    (\<exists>x u. kincar_flat_reverse ops zflag params = Inr (x, u))) \<and>
   (import_fails env ''control'' tr = Some e \<and> catches ''ImportError'' e \<longrightarrow>
    exec env import_try tr =
      exec_list env [Shell ''pip install control'', Import ''control'']
        (tr @ [Imports ''control''])) \<and>
   map fst (defined_functions (concat notebooks)) =
     [''invpend_update'', ''propctrl_output'', ''statefbk_output'',
      ''servomech_update'', ''servomech_output'',
      ''_kincar_flat_forward'', ''_kincar_flat_reverse'', ''_kincar_update'',
      ''_kincar_output'', ''plot_lanechange'', ''Pdot_reverse'', ''xdot_forward'',
      ''r'', ''dryden_corrfcn'', ''dryden_psd''] \<and>
   filter is_raise (statements (concat notebooks)) = [Raise ''ValueError''] \<and>
   functions_containing is_raise (concat notebooks) = [''_kincar_flat_reverse''] \<and>
   map (\<lambda>nb. filter is_try (statements nb)) notebooks =
     [[import_try], [], [import_try], [], []] \<and>
   filter is_try (hd invpend_notebook) = [import_try] \<and>
   filter is_try (hd freq_notebook) = [import_try] \<and>
   functions_containing is_branch (concat notebooks) =
     [''_kincar_flat_reverse'', ''plot_lanechange''] \<and>
   length (filter is_branch (statements (concat notebooks))) = 3 \<and>
   map (\<lambda>nb. length (filter is_loop (statements nb))) notebooks = [3, 0, 0, 1, 1]"
proof (intro conjI impI)
  show "kincar_flat_reverse ops zflag params = Inl (ValueError m d) \<longleftrightarrow>
      (\<exists>v. index2 zflag 0 0 = Inr v) \<and> (\<exists>v. index2 zflag 1 0 = Inr v) \<and>
      m = ''unknown direction:'' \<and> d = dict_get params ''dir'' (Str ''f'') \<and>
      d \<noteq> Str ''f'' \<and> d \<noteq> Str ''r''"
    by (rule kincar_flat_reverse_ValueError)
next
  assume "(dict_get params ''dir'' (Str ''f'') = Str ''f'' \<or>
     dict_get params ''dir'' (Str ''f'') = Str ''r'') \<and>
    dict_get params ''wheelbase'' (Num 3) = Num bv \<and>
    1 < length zflag \<and> 2 < length (zflag ! 0) \<and> 2 < length (zflag ! 1)"
  then show "\<exists>x u. kincar_flat_reverse ops zflag params = Inr (x, u)"
    by (intro kincar_flat_reverse_returns [where bv = bv]) simp_all
next
  assume "import_fails env ''control'' tr = Some e \<and> catches ''ImportError'' e"
  then show "exec env import_try tr =
      exec_list env [Shell ''pip install control'', Import ''control'']
        (tr @ [Imports ''control''])"
    by (intro import_try_handles [where e = e]) simp_all
qed (rule functions_all raises_all raising_functions tries_all tries_cells
      branching_functions branches_count)+

theorem notebook_error_handling_witness:
  "((dict_get [''dir'' \<mapsto> Str ''r''] ''dir'' (Str ''f'') = Str ''f'' \<or>
     dict_get [''dir'' \<mapsto> Str ''r''] ''dir'' (Str ''f'') = Str ''r'') \<and>
    dict_get [''dir'' \<mapsto> Str ''r''] ''wheelbase'' (Num 3) = Num 3 \<and>
    1 < length [[0, 1, 0], [0, 0, 0 :: real]] \<and>
    2 < length ([[0, 1, 0], [0, 0, 0 :: real]] ! 0) \<and>
    2 < length ([[0, 1, 0], [0, 0, 0 :: real]] ! 1)) \<and>
   (\<exists>x u. kincar_flat_reverse exact_ops [[0, 1, 0], [0, 0, 0]] [''dir'' \<mapsto> Str ''r'']
            = Inr (x, u)) \<and>
   (import_fails missing_control ''control'' [] = Some ''ModuleNotFoundError'' \<and>
    catches ''ImportError'' ''ModuleNotFoundError'') \<and>
   exec missing_control import_try [] =
     exec_list missing_control [Shell ''pip install control'', Import ''control'']
       ([] @ [Imports ''control''])"
proof -
  note t = notebook_error_handling [where ops = exact_ops
      and zflag = "[[0, 1, 0], [0, 0, 0]]" and params = "[''dir'' \<mapsto> Str ''r'']"
      and bv = 3 and env = missing_control and tr = "[]" and e = "''ModuleNotFoundError''"]
  have h1: "(dict_get [''dir'' \<mapsto> Str ''r''] ''dir'' (Str ''f'') = Str ''f'' \<or>
     dict_get [''dir'' \<mapsto> Str ''r''] ''dir'' (Str ''f'') = Str ''r'') \<and>
    dict_get [''dir'' \<mapsto> Str ''r''] ''wheelbase'' (Num 3) = Num 3 \<and>
    1 < length [[0, 1, 0], [0, 0, 0 :: real]] \<and>
    2 < length ([[0, 1, 0], [0, 0, 0 :: real]] ! 0) \<and>
    2 < length ([[0, 1, 0], [0, 0, 0 :: real]] ! 1)"
    by (simp add: dict_get_def)
  have h2: "import_fails missing_control ''control'' [] = Some ''ModuleNotFoundError'' \<and>
    catches ''ImportError'' ''ModuleNotFoundError''"
    by (simp add: missing_control_def catches_def)
  note c1 = t [THEN conjunct2, THEN conjunct1, THEN mp, OF h1]
  note c2 = t [THEN conjunct2, THEN conjunct2, THEN conjunct1, THEN mp, OF h2]
  show ?thesis by (rule conjI [OF h1 conjI [OF c1 conjI [OF h2 c2]]])
qed

text \<open>
  C2, the claim that \<open>_kincar_flat_reverse\<close> returns normally for every value of the
  \<open>dir\<close> parameter fails for \<open>dir = 'x'\<close>: on a flag of two rows of three entries
  the function raises its own \<open>ValueError\<close>.
\<close>

theorem kincar_flat_reverse_raises:
  "kincar_flat_reverse exact_ops [[0, 1, 0], [0, 0, 0]] [''dir'' \<mapsto> Str ''x''] =
     Inl (ValueError ''unknown direction:'' (Str ''x''))"
  by (simp add: kincar_flat_reverse_def index2_def index_def and_then_def dict_get_def)

subsection \<open>What the run of a cell asks of the world outside\<close>











lemma shells_Def: "shells [Def f body] = shells body"
  by (simp add: shells_def)





















subsection \<open>Assignments to attributes of objects\<close>

lemma attribute_assignments_all:
  "map attribute_assignments notebooks =
     [[], [], [(''P'', ''name''), (''L'', ''name''), (''Cnew'', ''name''), (''Lnew'', ''name'')],
      [], []]"
  by code_simp

lemma attribute_contexts_freq:
  "concat (map attribute_contexts freq_notebook) =
     [(Assign [Var ''P''] [''servomech.linearize''], Assign [Attr ''P'' ''name''] [],
       Expr [''print'']),
      (Assign [Var ''L''] [], Assign [Attr ''L'' ''name''] [], Expr [''print'']),
      (Assign [Var ''Cnew''] [], Assign [Attr ''Cnew'' ''name''] [], Expr [''print'']),
      (Assign [Var ''Lnew''] [], Assign [Attr ''Lnew'' ''name''] [], Expr [''plt.figure''])]"
  by code_simp

lemma item_assignments_all:
  "map (\<lambda>nb. remdups (item_assignments nb)) notebooks =
     [[], [], [], [''zflag[]'', ''x'', ''u'', ''ud''], []]"
  by code_simp

text \<open>
  C5. No notebook code assigns to an attribute that holds the data of a system: the
  only assignments to an attribute of an object, in all the statements of the five
  notebooks at any depth, are four assignments to \<open>name\<close>, of the linear
  time-invariant systems \<open>P\<close>, \<open>L\<close>, \<open>Cnew\<close> and \<open>Lnew\<close> of the
  frequency-domain notebook. Each stands directly after the statement that binds the
  variable to the newly constructed system (\<open>P = servomech.linearize(\<dots>)\<close>,
  \<open>L = P * C\<close>, \<open>Cnew = (kp + kd * s) / (s/20 + 1)**2\<close>, \<open>Lnew = P * Cnew\<close>)
  and before the system is printed or plotted. The assignments to an item or a slice
  write to the arrays \<open>zflag[0]\<close>, \<open>zflag[1]\<close>, \<open>x\<close> and \<open>u\<close> that the flat maps
  have just created and to the array \<open>ud\<close>, none of them a system or an attribute
  of one.
\<close>

theorem attribute_assignments_set_names:
  "map attribute_assignments notebooks =
     [[], [], [(''P'', ''name''), (''L'', ''name''), (''Cnew'', ''name''), (''Lnew'', ''name'')],
      [], []] \<and>
   concat (map attribute_contexts freq_notebook) =
     [(Assign [Var ''P''] [''servomech.linearize''], Assign [Attr ''P'' ''name''] [],
       Expr [''print'']),
      (Assign [Var ''L''] [], Assign [Attr ''L'' ''name''] [], Expr [''print'']),
      (Assign [Var ''Cnew''] [], Assign [Attr ''Cnew'' ''name''] [], Expr [''print'']),
      (Assign [Var ''Lnew''] [], Assign [Attr ''Lnew'' ''name''] [], Expr [''plt.figure''])] \<and>
   map (\<lambda>nb. remdups (item_assignments nb)) notebooks =
     [[], [], [], [''zflag[]'', ''x'', ''u'', ''ud''], []]"
  by (intro conjI attribute_assignments_all attribute_contexts_freq item_assignments_all)

text \<open>
  C5, the claim that no notebook code assigns to any attribute of a system, its name
  included, after construction fails in cell 20 of the frequency-domain notebook
  (lines 785-787): \<open>Cnew\<close> is constructed, then \<open>Cnew.name = 'Cnew'\<close> assigns to
  its name, then the system is printed.
\<close>

theorem Cnew_name_assigned:
  "take 3 (freq_notebook ! 20) =
     [Assign [Var ''Cnew''] [], Assign [Attr ''Cnew'' ''name''] [], Expr [''print'']]"
  by code_simp

subsection \<open>Arguments of the nonlinear system constructions\<close>

lemma nlsys_calls_functions:
  "\<forall>c\<in>set nlsys_calls. supplied (updfcn c) \<or> supplied (outfcn c)"
  by (simp add: nlsys_calls_def invpend_call_def propctrl_call_def statefbk_call_def
      servomech_call_def kincar_call_def)

lemma nlsys_calls_params:
  "\<forall>c\<in>set nlsys_calls. list_all (\<lambda>kv. is_number (snd kv)) (params_given c)"
  by (simp add: nlsys_calls_def invpend_call_def propctrl_call_def statefbk_call_def
      servomech_call_def kincar_call_def)

lemma nlsys_defaults_not_numbers:
  "\<not> list_all (\<lambda>kv. is_number (snd kv)) (get_defaults kincar_call)"
  "\<not> list_all (\<lambda>kv. is_number (snd kv)) (get_defaults statefbk_call)"
  by (simp_all add: kincar_call_def statefbk_call_def)

text \<open>
  C6, as the code has it. Every call of \<open>nlsys\<close> or \<open>FlatSystem\<close> in the
  notebooks supplies at least one of the update function and the output function, and
  every value of a parameter mapping given at construction is a number. The defaults
  that the functions read with \<open>params.get\<close> are not all numbers: \<open>dir\<close> of
  the kinematic car defaults to a string and \<open>K\<close> of the state feedback to an
  array.
\<close>

theorem nlsys_calls_supply_a_function:
  "(\<forall>c\<in>set nlsys_calls.
      (supplied (updfcn c) \<or> supplied (outfcn c)) \<and>
      list_all (\<lambda>kv. is_number (snd kv)) (params_given c)) \<and>
   \<not> list_all (\<lambda>kv. is_number (snd kv)) (get_defaults kincar_call) \<and>
   \<not> list_all (\<lambda>kv. is_number (snd kv)) (get_defaults statefbk_call)"
  using nlsys_calls_functions nlsys_calls_params nlsys_defaults_not_numbers by blast

theorem nlsys_calls_supply_a_function_witness:
  "propctrl_call \<in> set nlsys_calls \<and>
   (supplied (updfcn propctrl_call) \<or> supplied (outfcn propctrl_call)) \<and>
   list_all (\<lambda>kv. is_number (snd kv)) (params_given propctrl_call)"
proof -
  have m: "propctrl_call \<in> set nlsys_calls" by (simp add: nlsys_calls_def)
  from nlsys_calls_supply_a_function [THEN conjunct1, rule_format, OF m] m
  show ?thesis by (intro conjI) blast+
qed

text \<open>
  The claim C6 as stated fails: the proportional controller is constructed with
  \<open>None\<close> for the update function, and the inverted pendulum without an output
  function.
\<close>

theorem propctrl_has_no_update_function:
  "propctrl_call \<in> set nlsys_calls \<and> updfcn propctrl_call = None \<and>
   invpend_call \<in> set nlsys_calls \<and> outfcn invpend_call = None"
  by (simp add: nlsys_calls_def propctrl_call_def invpend_call_def)

subsection \<open>The Riccati right-hand side\<close>

lemma mat_of_shape: "has_shape r c (mat_of r c e)"
  by (simp add: has_shape_def mat_of_def list_all_iff)

lemma mat_of_nth: "i < r \<Longrightarrow> j < c \<Longrightarrow> mat_of r c e ! i ! j = e i j"
  by (simp add: mat_of_def)

lemma mat_of_cong:
  "(\<And>i j. i < r \<Longrightarrow> j < c \<Longrightarrow> e i j = e' i j) \<Longrightarrow> mat_of r c e = mat_of r c e'"
  by (simp add: mat_of_def)

lemma has_shape_length: "has_shape r c M \<Longrightarrow> length M = r"
  by (simp add: has_shape_def)

lemma has_shape_cols: "has_shape r c M \<Longrightarrow> 0 < r \<Longrightarrow> cols M = c"
  by (cases M) (simp_all add: has_shape_def cols_def)

lemma has_shape_row: "has_shape r c M \<Longrightarrow> i < r \<Longrightarrow> length (M ! i) = c"
  by (simp add: has_shape_def list_all_length)

lemma np_matmul_shaped:
  assumes "has_shape r k X" "has_shape k c Y" "0 < r" "0 < k"
  shows "np_matmul X Y = Inr (mat_of r c (\<lambda>i j. \<Sum>t<k. X ! i ! t * Y ! t ! j))"
  using assms
  by (simp add: np_matmul_def has_shape_length has_shape_cols)

lemma np_T_shaped:
  assumes "has_shape r c M" "0 < r"
  shows "np_T M = mat_of c r (\<lambda>j i. M ! i ! j)"
  using assms by (simp add: np_T_def has_shape_length has_shape_cols)

lemma np_broadcast_same_shape:
  assumes "has_shape r c X" "has_shape r c Y" "0 < r"
  shows "np_broadcast f X Y = Inr (mat_of r c (\<lambda>i j. f (X ! i ! j) (Y ! i ! j)))"
proof -
  have l: "length X = r" "length Y = r" "cols X = c" "cols Y = c"
    using assms by (simp_all add: has_shape_length has_shape_cols)
  have "mat_of r c (\<lambda>i j. f (X ! (if r = 1 then 0 else i) ! (if c = 1 then 0 else j))
                           (Y ! (if r = 1 then 0 else i) ! (if c = 1 then 0 else j))) =
        mat_of r c (\<lambda>i j. f (X ! i ! j) (Y ! i ! j))"
    by (rule mat_of_cong) auto
  then show ?thesis by (simp add: np_broadcast_def l Let_def)
qed

lemma np_reshape2_concat:
  assumes "has_shape n n P"
  shows "np_reshape2 n (concat P) = Inr P"
proof -
  from assms have len: "length P = n" and rows: "list_all (\<lambda>row. length row = n) P"
    by (simp_all add: has_shape_def)
  have l: "length (concat P) = n * n"
    using concat_uniform_length [OF rows] len by simp
  have "map (\<lambda>i. take n (drop (i * n) (concat P))) [0..<n] = map (\<lambda>i. P ! i) [0..<n]"
    by (intro map_cong refl) (simp add: concat_uniform_chunk [OF rows] len)
  also have "\<dots> = P" using map_nth [of P] len by simp
  finally show ?thesis by (simp add: np_reshape2_def l)
qed

lemma Pdot_reverse_formula:
  assumes n: "0 < n" and m: "0 < m"
      and A: "has_shape n n A" and B: "has_shape n m B" and Qx: "has_shape n n Qx"
      and P: "has_shape n n P"
      and inv: "linalg_inv Qu = Inr Qi" and Qi: "has_shape m m Qi"
  shows "Pdot_reverse linalg_inv A B Qx Qu t (concat P) =
         Inr (concat (mat_of n n (riccati_rhs_entry n m A B Qx Qi P)))"
proof -
  note sh = mat_of_shape
  have lenA: "length A = n" using A by (rule has_shape_length)
  have r0: "np_reshape2 (length A) (concat P) = Inr P"
    unfolding lenA by (rule np_reshape2_concat [OF P])
  define PA where "PA = mat_of n n (\<lambda>i j. \<Sum>k<n. P ! i ! k * A ! k ! j)"
  have r1: "np_matmul P A = Inr PA"
    unfolding PA_def by (rule np_matmul_shaped [OF P A n n])
  have AT: "np_T A = mat_of n n (\<lambda>j i. A ! i ! j)" by (rule np_T_shaped [OF A n])
  define ATP where "ATP = mat_of n n (\<lambda>i j. \<Sum>k<n. A ! k ! i * P ! k ! j)"
  have r2: "np_matmul (np_T A) P = Inr ATP"
  proof -
    have "np_matmul (np_T A) P = Inr (mat_of n n (\<lambda>i j. \<Sum>k<n. np_T A ! i ! k * P ! k ! j))"
      unfolding AT by (rule np_matmul_shaped [OF sh P n n])
    also have "mat_of n n (\<lambda>i j. \<Sum>k<n. np_T A ! i ! k * P ! k ! j) = ATP"
      unfolding ATP_def AT by (rule mat_of_cong) (simp add: mat_of_nth)
    finally show ?thesis .
  qed
  define S1 where "S1 = mat_of n n (\<lambda>i j. PA ! i ! j + ATP ! i ! j)"
  have r3: "np_add PA ATP = Inr S1"
    unfolding S1_def np_add_def PA_def ATP_def
    by (rule np_broadcast_same_shape [OF sh sh n])
  define S2 where "S2 = mat_of n n (\<lambda>i j. S1 ! i ! j + Qx ! i ! j)"
  have r4: "np_add S1 Qx = Inr S2"
    unfolding S2_def np_add_def S1_def
    by (rule np_broadcast_same_shape [OF sh Qx n])
  define PB where "PB = mat_of n m (\<lambda>i j. \<Sum>a<n. P ! i ! a * B ! a ! j)"
  have r5: "np_matmul P B = Inr PB"
    unfolding PB_def by (rule np_matmul_shaped [OF P B n n])
  define PBQ where "PBQ = mat_of n m (\<lambda>i j. \<Sum>b<m. PB ! i ! b * Qi ! b ! j)"
  have r6: "np_matmul PB Qi = Inr PBQ"
    unfolding PBQ_def PB_def by (rule np_matmul_shaped [OF sh Qi n m])
  have BT: "np_T B = mat_of m n (\<lambda>j i. B ! i ! j)" by (rule np_T_shaped [OF B n])
  define PBQB where "PBQB = mat_of n n (\<lambda>i j. \<Sum>c<m. PBQ ! i ! c * B ! j ! c)"
  have r7: "np_matmul PBQ (np_T B) = Inr PBQB"
  proof -
    have "np_matmul PBQ (np_T B) =
          Inr (mat_of n n (\<lambda>i j. \<Sum>c<m. PBQ ! i ! c * np_T B ! c ! j))"
      unfolding BT PBQ_def by (rule np_matmul_shaped [OF sh sh n m])
    also have "mat_of n n (\<lambda>i j. \<Sum>c<m. PBQ ! i ! c * np_T B ! c ! j) = PBQB"
      unfolding PBQB_def BT by (rule mat_of_cong) (simp add: mat_of_nth)
    finally show ?thesis .
  qed
  define Quad where "Quad = mat_of n n (\<lambda>i j. \<Sum>d<n. PBQB ! i ! d * P ! d ! j)"
  have r8: "np_matmul PBQB P = Inr Quad"
    unfolding Quad_def PBQB_def by (rule np_matmul_shaped [OF sh P n n])
  define Prhs where "Prhs = mat_of n n (\<lambda>i j. S2 ! i ! j - Quad ! i ! j)"
  have r9: "np_sub S2 Quad = Inr Prhs"
    unfolding Prhs_def np_sub_def S2_def Quad_def
    by (rule np_broadcast_same_shape [OF sh sh n])
  have entries: "Prhs = mat_of n n (riccati_rhs_entry n m A B Qx Qi P)"
    unfolding Prhs_def
  proof (rule mat_of_cong)
    fix i j assume i: "i < n" and j: "j < n"
    have s2: "S2 ! i ! j = (\<Sum>k<n. P ! i ! k * A ! k ! j) + (\<Sum>k<n. A ! k ! i * P ! k ! j) +
                Qx ! i ! j"
      using i j by (simp add: S2_def S1_def PA_def ATP_def mat_of_nth)
    have pbq: "PBQ ! i ! c = (\<Sum>b<m. (\<Sum>a<n. P ! i ! a * B ! a ! b) * Qi ! b ! c)"
      if "c < m" for c
      using i that by (simp add: PBQ_def PB_def mat_of_nth)
    have pbqb: "PBQB ! i ! d =
        (\<Sum>c<m. (\<Sum>b<m. (\<Sum>a<n. P ! i ! a * B ! a ! b) * Qi ! b ! c) * B ! d ! c)"
      if "d < n" for d
      using i that by (simp add: PBQB_def mat_of_nth pbq)
    have q: "Quad ! i ! j =
        (\<Sum>d<n. (\<Sum>c<m. (\<Sum>b<m. (\<Sum>a<n. P ! i ! a * B ! a ! b) * Qi ! b ! c) * B ! d ! c) *
           P ! d ! j)"
      using i j by (simp add: Quad_def mat_of_nth pbqb)
    show "S2 ! i ! j - Quad ! i ! j = riccati_rhs_entry n m A B Qx Qi P i j"
      by (simp only: s2 q riccati_rhs_entry_def)
  qed
  show ?thesis
    unfolding Pdot_reverse_def r0 and_then_Inr r1 r2 r3 r4 r5 inv r6 r7 r8 r9 entries ..
qed

text \<open>
  The matrices \<open>kincar_A\<close> and \<open>kincar_B\<close> are the partial derivatives of
  \<open>kincar_update\<close> at \<open>x0 = [-40, -2, 0]\<close>, \<open>u0 = [10, 0]\<close>.
\<close>

lemma kincar_update_value:
  "kincar_update t [x, y, th] [v, d] Map.empty = Inr [cos th * v, sin th * v, v / 3 * tan d]"
  by (simp add: kincar_update_def dict_get_def index_def and_then_def)

lemma kincar_jacobian_state:
  "DERIV (\<lambda>s. component (kincar_update t [s, - 2, 0] [10, 0] Map.empty) 0) (- 40) :> kincar_A ! 0 ! 0"
  "DERIV (\<lambda>s. component (kincar_update t [- 40, s, 0] [10, 0] Map.empty) 0) (- 2) :> kincar_A ! 0 ! 1"
  "DERIV (\<lambda>s. component (kincar_update t [- 40, - 2, s] [10, 0] Map.empty) 0) 0 :> kincar_A ! 0 ! 2"
  "DERIV (\<lambda>s. component (kincar_update t [s, - 2, 0] [10, 0] Map.empty) 1) (- 40) :> kincar_A ! 1 ! 0"
  "DERIV (\<lambda>s. component (kincar_update t [- 40, s, 0] [10, 0] Map.empty) 1) (- 2) :> kincar_A ! 1 ! 1"
  "DERIV (\<lambda>s. component (kincar_update t [- 40, - 2, s] [10, 0] Map.empty) 1) 0 :> kincar_A ! 1 ! 2"
  "DERIV (\<lambda>s. component (kincar_update t [s, - 2, 0] [10, 0] Map.empty) 2) (- 40) :> kincar_A ! 2 ! 0"
  "DERIV (\<lambda>s. component (kincar_update t [- 40, s, 0] [10, 0] Map.empty) 2) (- 2) :> kincar_A ! 2 ! 1"
  "DERIV (\<lambda>s. component (kincar_update t [- 40, - 2, s] [10, 0] Map.empty) 2) 0 :> kincar_A ! 2 ! 2"
  by (auto simp: kincar_update_value component_def kincar_A_def intro!: derivative_eq_intros)

lemma kincar_jacobian_input:
  "DERIV (\<lambda>s. component (kincar_update t [- 40, - 2, 0] [s, 0] Map.empty) 0) 10 :> kincar_B ! 0 ! 0"
  "DERIV (\<lambda>s. component (kincar_update t [- 40, - 2, 0] [10, s] Map.empty) 0) 0 :> kincar_B ! 0 ! 1"
  "DERIV (\<lambda>s. component (kincar_update t [- 40, - 2, 0] [s, 0] Map.empty) 1) 10 :> kincar_B ! 1 ! 0"
  "DERIV (\<lambda>s. component (kincar_update t [- 40, - 2, 0] [10, s] Map.empty) 1) 0 :> kincar_B ! 1 ! 1"
  "DERIV (\<lambda>s. component (kincar_update t [- 40, - 2, 0] [s, 0] Map.empty) 2) 10 :> kincar_B ! 2 ! 0"
  "DERIV (\<lambda>s. component (kincar_update t [- 40, - 2, 0] [10, s] Map.empty) 2) 0 :> kincar_B ! 2 ! 1"
  by (auto simp: kincar_update_value component_def kincar_B_def intro!: derivative_eq_intros)

lemma upt3: "[0..<3] = [0, 1, 2]" by (simp add: upt_rec)
lemma upt2: "[0..<2] = [0, 1]" by (simp add: upt_rec)
lemma sum3: "(\<Sum>k<(3::nat). f k) = f 0 + f 1 + (f 2 :: real)"
  by (simp add: eval_nat_numeral)
lemma sum2: "(\<Sum>k<(2::nat). f k) = f 0 + (f 1 :: real)"
  by (simp add: eval_nat_numeral)

lemma P0_reshape:
  "np_reshape2 3 (riccati_P0 Pf_lq) = Inr Pf_lq"
  by (simp add: np_reshape2_def riccati_P0_def Pf_lq_def upt3)

lemma riccati_step_1: "np_matmul Pf_lq kincar_A = Inr kincar_A"
  by (simp add: np_matmul_def mat_of_def Pf_lq_def kincar_A_def cols_def upt3 sum3)

lemma riccati_step_2: "np_matmul (np_T kincar_A) Pf_lq = Inr [[0, 0, 0], [0, 0, 0], [0, 10, 0]]"
  by (simp add: np_matmul_def np_T_def mat_of_def Pf_lq_def kincar_A_def cols_def upt3 sum3)

lemma riccati_step_3: "np_add kincar_A [[0, 0, 0], [0, 0, 0], [0, 10, 0]] = Inr [[0, 0, 0], [0, 0, 10], [0, 10, 0]]"
  by (simp add: np_add_def np_broadcast_def mat_of_def kincar_A_def cols_def upt3)

lemma riccati_step_4: "np_add [[0, 0, 0], [0, 0, 10], [0, 10, 0]] Qx_lq = Inr [[1, 0, 0], [0, 1, 10], [0, 10, 1]]"
  by (simp add: np_add_def np_broadcast_def mat_of_def Qx_lq_def cols_def upt3)

lemma riccati_step_5: "np_matmul Pf_lq kincar_B = Inr kincar_B"
  by (simp add: np_matmul_def mat_of_def Pf_lq_def kincar_B_def cols_def upt3 upt2 sum3)

lemma riccati_step_6: "linalg_inv_2x2 Qu_lq = Inr Qu_lq"
  by (simp add: Qu_lq_def)

lemma riccati_step_7: "np_matmul kincar_B Qu_lq = Inr kincar_B"
  by (simp add: np_matmul_def mat_of_def Qu_lq_def kincar_B_def cols_def upt3 upt2 sum2)

lemma riccati_step_8: "np_matmul kincar_B (np_T kincar_B) = Inr [[1, 0, 0], [0, 0, 0], [0, 0, 100 / 9]]"
  by (simp add: np_matmul_def np_T_def mat_of_def kincar_B_def cols_def upt3 upt2 sum2)

lemma riccati_step_9: "np_matmul [[1, 0, 0], [0, 0, 0], [0, 0, 100 / 9]] Pf_lq = Inr [[1, 0, 0], [0, 0, 0], [0, 0, 100 / 9]]"
  by (simp add: np_matmul_def mat_of_def Pf_lq_def cols_def upt3 sum3)

lemma riccati_step_10: "np_sub [[1, 0, 0], [0, 1, 10], [0, 10, 1]] [[1, 0, 0], [0, 0, 0], [0, 0, 100 / 9]]
   = Inr [[0, 0, 0], [0, 1, 10], [0, 10, - (91 / 9)]]"
  by (simp add: np_sub_def np_broadcast_def mat_of_def cols_def upt3)

lemma Pdot_reverse_at_terminal:
  "Pdot_reverse linalg_inv_2x2 kincar_A kincar_B Qx_lq Qu_lq t (riccati_P0 Pf_lq) =
   Inr [0, 0, 0, 0, 1, 10, 0, 10, - (91 / 9)]"
proof -
  have n: "length kincar_A = 3" by (simp add: kincar_A_def)
  show ?thesis
    unfolding Pdot_reverse_def n P0_reshape and_then_Inr riccati_step_1 riccati_step_2 riccati_step_3
      riccati_step_4 riccati_step_5 riccati_step_6 riccati_step_7 riccati_step_8 riccati_step_9
      riccati_step_10
    by simp
qed

text \<open>
  C1, as the code has it. The right-hand side of the Riccati equation is evaluated by
  notebook code: on a state that is the flattening of an \<open>n\<close> by \<open>n\<close> matrix
  \<open>P\<close>, with \<open>A\<close>, \<open>Q\<^sub>x\<close> of that shape, \<open>B\<close> of \<open>n\<close> rows and
  \<open>m\<close> columns, and the external inverse returning an \<open>m\<close> by \<open>m\<close> matrix
  \<open>Qi\<close> for \<open>Q\<^sub>u\<close>, \<open>Pdot_reverse\<close> raises nothing and returns the
  flattening of the matrix whose entries are those of
  \<open>P A + A\<^sup>T P + Q\<^sub>x - P B Qi B\<^sup>T P\<close>; the external integrator is handed this
  function as its right-hand side, with the flattened terminal cost as initial value.
\<close>

theorem Pdot_reverse_computes_riccati_rhs:
  assumes "0 < n" and "0 < m"
      and "has_shape n n A" and "has_shape n m B" and "has_shape n n Qx"
      and "has_shape n n P"
      and "linalg_inv Qu = Inr Qi" and "has_shape m m Qi"
  shows "Pdot_reverse linalg_inv A B Qx Qu t (concat P) =
           Inr (concat (mat_of n n (riccati_rhs_entry n m A B Qx Qi P))) \<and>
         riccati_solve solve_ivp linalg_inv A B Qx Qu Tf Pf =
           solve_ivp (Pdot_reverse linalg_inv A B Qx Qu) (0, Tf) (concat Pf)"
  using Pdot_reverse_formula [where linalg_inv = linalg_inv and Qu = Qu, OF assms]
  by (simp add: riccati_solve_def riccati_P0_def)

theorem Pdot_reverse_computes_riccati_rhs_witness:
  "0 < (3::nat) \<and> 0 < (2::nat) \<and>
   has_shape 3 3 kincar_A \<and> has_shape 3 2 kincar_B \<and> has_shape 3 3 Qx_lq \<and>
   has_shape 3 3 Pf_lq \<and> linalg_inv_2x2 Qu_lq = Inr Qu_lq \<and> has_shape 2 2 Qu_lq \<and>
   Pdot_reverse linalg_inv_2x2 kincar_A kincar_B Qx_lq Qu_lq 0 (concat Pf_lq) =
     Inr (concat (mat_of 3 3 (riccati_rhs_entry 3 2 kincar_A kincar_B Qx_lq Qu_lq Pf_lq))) \<and>
   riccati_solve (\<lambda>f (t0, tf) y0. f t0 y0) linalg_inv_2x2 kincar_A kincar_B Qx_lq Qu_lq
     Tf_lq Pf_lq =
     (\<lambda>f (t0, tf) y0. f t0 y0) (Pdot_reverse linalg_inv_2x2 kincar_A kincar_B Qx_lq Qu_lq)
       (0, Tf_lq) (concat Pf_lq)"
proof -
  have h: "0 < (3::nat)" "0 < (2::nat)"
    "has_shape 3 3 kincar_A" "has_shape 3 2 kincar_B" "has_shape 3 3 Qx_lq"
    "has_shape 3 3 Pf_lq" "linalg_inv_2x2 Qu_lq = Inr Qu_lq" "has_shape 2 2 Qu_lq"
    by (simp_all add: has_shape_def kincar_A_def kincar_B_def Qx_lq_def Pf_lq_def Qu_lq_def)
  note c = Pdot_reverse_computes_riccati_rhs
    [where linalg_inv = linalg_inv_2x2 and Qu = Qu_lq and t = 0 and Tf = Tf_lq and Pf = Pf_lq
       and solve_ivp = "\<lambda>f (t0, tf) y0. f t0 y0", OF h]
  show ?thesis by (intro conjI h c [THEN conjunct1] c [THEN conjunct2])
qed

text \<open>
  The claim C1 as stated fails: the right-hand side handed to the integrator is a
  function defined in the notebook, and it is this function that computes the values:
  at the terminal cost, with the car linearized at \<open>x0\<close>, \<open>u0\<close>, it returns the
  flattened matrix \<open>A + A\<^sup>T + Q\<^sub>x - B B\<^sup>T\<close>, and an integrator that evaluates its
  right-hand side at the initial point gets that value.
\<close>

theorem riccati_rhs_is_notebook_code:
  "riccati_rhs_argument \<in> set lq_notebook_defs \<and>
   Pdot_reverse linalg_inv_2x2 kincar_A kincar_B Qx_lq Qu_lq 0 (riccati_P0 Pf_lq) =
     Inr [0, 0, 0, 0, 1, 10, 0, 10, - (91 / 9)] \<and>
   riccati_solve (\<lambda>f (t0, tf) y0. f t0 y0) linalg_inv_2x2 kincar_A kincar_B Qx_lq Qu_lq
     Tf_lq Pf_lq = Inr [0, 0, 0, 0, 1, 10, 0, 10, - (91 / 9)]"
proof (intro conjI)
  show "riccati_rhs_argument \<in> set lq_notebook_defs"
    by (simp add: riccati_rhs_argument_def lq_notebook_defs_def)
  show "Pdot_reverse linalg_inv_2x2 kincar_A kincar_B Qx_lq Qu_lq 0 (riccati_P0 Pf_lq) =
     Inr [0, 0, 0, 0, 1, 10, 0, 10, - (91 / 9)]"
    by (rule Pdot_reverse_at_terminal)
  show "riccati_solve (\<lambda>f (t0, tf) y0. f t0 y0) linalg_inv_2x2 kincar_A kincar_B Qx_lq Qu_lq
     Tf_lq Pf_lq = Inr [0, 0, 0, 0, 1, 10, 0, 10, - (91 / 9)]"
    by (simp add: riccati_solve_def Pdot_reverse_at_terminal)
qed

end
